theory Spec2Isabelle
  imports Main "HOL-Library.AList" "HOL-Library.Sublist"
begin

section \<open>Strings and dictionaries of the tracker\<close>

text \<open>
  A Python string is a sequence of Unicode code points, modelled as a list of integers,
  the values of \<open>ord\<close>. \<open>str ''abc''\<close> is the string of an ASCII literal and \<open>cp CHR ''a''\<close> the code
  point of an ASCII character; the three characters outside ASCII that the program's
  literals use are given by their code points.
\<close>

type_synonym ustring = "int list"

abbreviation str :: "string \<Rightarrow> ustring" where
  "str s \<equiv> map of_char s"

abbreviation cp :: "char \<Rightarrow> int" where
  "cp c \<equiv> of_char c"

definition o_umlaut :: ustring where
  "o_umlaut = [0xF6]"

definition sharp_s :: ustring where
  "sharp_s = [0xDF]"

definition euro :: ustring where
  "euro = [0x20AC]"

text \<open>
  Whitespace, as \<open>str.strip\<close>, \<open>str.isspace\<close> and the classes \<open>\s\<close> and \<open>\S\<close> of
  a regular expression on strings have it: the ASCII characters 9 to 13 and 28 to 32, and
  U+0085, U+00A0, U+1680, U+2000 to U+200A, U+2028, U+2029, U+202F, U+205F and U+3000.
\<close>

definition is_space :: "int \<Rightarrow> bool" where
  "is_space c =
     ((9 \<le> c \<and> c \<le> 13) \<or> (28 \<le> c \<and> c \<le> 32) \<or> c = 0x85 \<or> c = 0xA0 \<or> c = 0x1680 \<or>
      (0x2000 \<le> c \<and> c \<le> 0x200A) \<or> c = 0x2028 \<or> c = 0x2029 \<or> c = 0x202F \<or>
      c = 0x205F \<or> c = 0x3000)"

text \<open>
  Decimal digits. The class \<open>\d\<close> of a regular expression on strings takes every
  character that has a decimal value in the Unicode database of the running Python, and
  \<open>int\<close> reads a run of such characters by these values. Which characters those are
  depends on the version of the database, so the function \<open>decimal\<close>, from a code point to
  its decimal value if it has one (\<open>unicodedata.decimal\<close>), is a parameter of the
  functions that read numbers.
\<close>

definition is_digit :: "(int \<Rightarrow> nat option) \<Rightarrow> int \<Rightarrow> bool" where
  "is_digit decimal c = (decimal c \<noteq> None)"

text \<open>
  \<open>unicode_decimal\<close> is that function for Unicode 14.0, the database of Python 3.11:
  66 digit systems of ten consecutive characters each, given by their zeros. The closed
  examples use it.
\<close>

definition decimal_zeros :: "int list" where
  "decimal_zeros =
     [48, 1632, 1776, 1984, 2406, 2534, 2662, 2790, 2918, 3046, 3174, 3302, 3430, 3558,
      3664, 3792, 3872, 4160, 4240, 6112, 6160, 6470, 6608, 6784, 6800, 6992, 7088, 7232,
      7248, 42528, 43216, 43264, 43472, 43504, 43600, 44016, 65296, 66720, 68912, 69734,
      69872, 69942, 70096, 70384, 70736, 70864, 71248, 71360, 71472, 71904, 72016, 72784,
      73040, 73120, 92768, 92864, 93008, 120782, 120792, 120802, 120812, 120822, 123200,
      123632, 125264, 130032]"

definition unicode_decimal :: "int \<Rightarrow> nat option" where
  "unicode_decimal c =
     map_option (\<lambda>z. nat (c - z)) (find (\<lambda>z. z \<le> c \<and> c < z + 10) decimal_zeros)"

text \<open>
  \<open>s.lower()\<close>, on the letters A to Z. Python's \<open>lower\<close> changes other upper-case
  characters too; what it puts in their place lies outside ASCII, except for U+0130
  (to i and U+0307) and U+212A (to k), and neither of these can complete an occurrence of
  the words that \<open>_detect_status\<close> looks for in the lower-cased text.
\<close>

definition lower_char :: "int \<Rightarrow> int" where
  "lower_char c = (if 65 \<le> c \<and> c \<le> 90 then c + 32 else c)"

definition lower :: "ustring \<Rightarrow> ustring" where
  "lower s = map lower_char s"

text \<open>\<open>s.strip()\<close>\<close>

definition strip :: "ustring \<Rightarrow> ustring" where
  "strip s = rev (dropWhile is_space (rev (dropWhile is_space s)))"

text \<open>\<open>needle in hay\<close> on strings: the needle occurs as a contiguous run.\<close>

fun str_in :: "ustring \<Rightarrow> ustring \<Rightarrow> bool" where
  "str_in needle [] = (needle = [])"
| "str_in needle (c # cs) = (prefix needle (c # cs) \<or> str_in needle cs)"

text \<open>\<open>" ".join(xs)\<close>\<close>

fun join_space :: "ustring list \<Rightarrow> ustring" where
  "join_space [] = []"
| "join_space [x] = x"
| "join_space (x # y # ys) = x @ str '' '' @ join_space (y # ys)"

text \<open>
  \<open>str(n)\<close> for a number that is not negative, in ASCII digits, and \<open>int(ds)\<close> for a
  run of decimal digits.
\<close>

fun str_nat :: "nat \<Rightarrow> ustring" where
  "str_nat n = (if n < 10 then [48 + int n] else str_nat (n div 10) @ [48 + int (n mod 10)])"

declare str_nat.simps [simp del]

definition int_of_digits :: "(int \<Rightarrow> nat option) \<Rightarrow> ustring \<Rightarrow> nat" where
  "int_of_digits decimal ds =
     foldl (\<lambda>n c. 10 * n + (case decimal c of Some d \<Rightarrow> d | None \<Rightarrow> 0)) 0 ds"

text \<open>
  A Python \<open>dict\<close> is an association list with distinct keys in insertion order:
  \<open>d.get(k)\<close> is \<open>map_of d k\<close>, \<open>d.get(k, dflt)\<close> is \<open>get_default d k dflt\<close>, and
  \<open>d[k] = v\<close> is \<open>AList.update k v d\<close>, which replaces the value of a key in place and
  appends a new key at the end.
\<close>

type_synonym info = "(ustring \<times> ustring) list"

type_synonym snapshot = "(ustring \<times> info) list"

definition get_default :: "info \<Rightarrow> ustring \<Rightarrow> ustring \<Rightarrow> ustring" where
  "get_default d k dflt = (case map_of d k of Some v \<Rightarrow> v | None \<Rightarrow> dflt)"

datatype error = KeyError ustring

section \<open>scraper.py\<close>

definition STATUS_FREE :: ustring where
  "STATUS_FREE = str ''free''"

definition STATUS_RESERVED :: ustring where
  "STATUS_RESERVED = str ''reserved''"

definition STATUS_OCCUPIED :: ustring where
  "STATUS_OCCUPIED = str ''occupied''"

definition STATUS_UNKNOWN :: ustring where
  "STATUS_UNKNOWN = str ''unknown''"

subsection \<open>html.unescape\<close>

text \<open>
  \<open>html.unescape\<close> belongs to Python's standard library. It returns a string without
  \<open>&\<close> as it is, and otherwise hands it to the substitution of character references,
  \<open>_charref.sub(_replace_charref, s)\<close>. That substitution is the parameter
  \<open>charref_sub\<close> of the parser. The blobs of the closed examples of the parser hold no
  \<open>&\<close>, so that the substitution is never called on them; it is instantiated to \<open>id\<close>
  there.
\<close>

definition unescape :: "(ustring \<Rightarrow> ustring) \<Rightarrow> ustring \<Rightarrow> ustring" where
  "unescape charref_sub s = (if cp CHR ''&'' \<notin> set s then s else charref_sub s)"

text \<open>
  The decoding both readers of the detail blob apply:
  \<open>html_lib.unescape(html_lib.unescape(data_text))\<close>.
\<close>

definition double_unescape :: "(ustring \<Rightarrow> ustring) \<Rightarrow> ustring \<Rightarrow> ustring" where
  "double_unescape charref_sub data_text = unescape charref_sub (unescape charref_sub data_text)"

subsection \<open>The substitution of character references\<close>

text \<open>
  The library's substitution, from \<open>Lib/html/__init__.py\<close>. Its three tables are the
  parameter: \<open>html.entities.html5\<close>, from the names of the HTML 5 entities (most of them
  with their semicolon) to their text, \<open>_invalid_charrefs\<close> and \<open>_invalid_codepoints\<close>.
\<close>

record html_tables =
  html5 :: "(ustring \<times> ustring) list"
  invalid_charrefs :: "(int \<times> ustring) list"
  invalid_codepoints :: "int list"

definition is_ascii_digit :: "int \<Rightarrow> bool" where
  "is_ascii_digit c = (48 \<le> c \<and> c \<le> 57)"

definition is_hex_digit :: "int \<Rightarrow> bool" where
  "is_hex_digit c = (is_ascii_digit c \<or> (65 \<le> c \<and> c \<le> 70) \<or> (97 \<le> c \<and> c \<le> 102))"

text \<open>The class of the name characters: all but tab, newline, form feed, space, <, &, # and ;.\<close>

definition is_name_char :: "int \<Rightarrow> bool" where
  "is_name_char c = (c \<notin> set ([9, 10, 12] @ str '' <&#;''))"

text \<open>The optional semicolon that ends each alternative: what it matches, and the rest.\<close>

definition opt_semicolon :: "ustring \<Rightarrow> ustring \<times> ustring" where
  "opt_semicolon r = (if prefix (str '';'') r then (str '';'', drop 1 r) else ([], r))"

text \<open>
  The pattern \<open>_charref\<close>: an ampersand, and then a number sign with decimal digits, or a
  number sign with x or X and hexadecimal digits, or one to 32 name characters; each with a
  semicolon if there is one. \<open>match_charref s\<close> gives the group of the match at the
  start of \<open>s\<close> (the reference without its ampersand) and the rest of \<open>s\<close>. The
  alternatives exclude each other and every repetition is followed by a character outside
  its class, so the greedy match is the only one.
\<close>

definition match_charref :: "ustring \<Rightarrow> (ustring \<times> ustring) option" where
  "match_charref s =
     (if prefix (str ''&'') s then
        let r = drop 1 s in
        if prefix (str ''#'') r then
          if takeWhile is_ascii_digit (drop 1 r) \<noteq> [] then
            let (semi, rest) = opt_semicolon (dropWhile is_ascii_digit (drop 1 r))
            in Some (take 1 r @ takeWhile is_ascii_digit (drop 1 r) @ semi, rest)
          else if (prefix (str ''x'') (drop 1 r) \<or> prefix (str ''X'') (drop 1 r)) \<and>
                  takeWhile is_hex_digit (drop 2 r) \<noteq> [] then
            let (semi, rest) = opt_semicolon (dropWhile is_hex_digit (drop 2 r))
            in Some (take 2 r @ takeWhile is_hex_digit (drop 2 r) @ semi, rest)
          else None
        else
          let name = take 32 (takeWhile is_name_char r) in
          if name \<noteq> [] then
            let (semi, rest) = opt_semicolon (drop (length name) r)
            in Some (name @ semi, rest)
          else None
      else None)"

text \<open>\<open>x.rstrip(';')\<close>, \<open>int(x)\<close> and \<open>int(x, 16)\<close> on ASCII digits.\<close>

definition rstrip_semicolon :: "ustring \<Rightarrow> ustring" where
  "rstrip_semicolon x = rev (dropWhile (\<lambda>c. c = cp CHR '';'') (rev x))"

definition int_ascii :: "ustring \<Rightarrow> int" where
  "int_ascii ds = foldl (\<lambda>n c. 10 * n + (c - 48)) 0 ds"

definition hex_value :: "int \<Rightarrow> int" where
  "hex_value c = (if is_ascii_digit c then c - 48 else if c \<le> 70 then c - 55 else c - 87)"

definition int_hex :: "ustring \<Rightarrow> int" where
  "int_hex hs = foldl (\<lambda>n c. 16 * n + hex_value c) 0 hs"

text \<open>
  The loop of \<open>_replace_charref\<close> over the proper prefixes of a name, from the longest to
  the one of two characters: the first that is in the table is replaced and the rest of
  the name kept; with none in the table the reference stays as it is.
\<close>

fun longest_name :: "html_tables \<Rightarrow> ustring \<Rightarrow> nat \<Rightarrow> ustring" where
  "longest_name T s 0 = str ''&'' @ s"
| "longest_name T s (Suc x) =
     (if Suc x \<le> 1 then str ''&'' @ s
      else case map_of (html5 T) (take (Suc x) s) of
             Some text \<Rightarrow> text @ drop (Suc x) s
           | None \<Rightarrow> longest_name T s x)"

text \<open>\<open>_replace_charref\<close>, on the group of a match.\<close>

definition replace_charref :: "html_tables \<Rightarrow> ustring \<Rightarrow> ustring" where
  "replace_charref T s =
     (if prefix (str ''#'') s then
        let num = (if prefix (str ''x'') (drop 1 s) \<or> prefix (str ''X'') (drop 1 s)
                   then int_hex (rstrip_semicolon (drop 2 s))
                   else int_ascii (rstrip_semicolon (drop 1 s)))
        in case map_of (invalid_charrefs T) num of
             Some text \<Rightarrow> text
           | None \<Rightarrow>
               if (0xD800 \<le> num \<and> num \<le> 0xDFFF) \<or> num > 0x10FFFF then [0xFFFD]
               else if num \<in> set (invalid_codepoints T) then []
               else [num]
      else
        case map_of (html5 T) s of
          Some text \<Rightarrow> text
        | None \<Rightarrow> longest_name T s (length s - 1))"

lemma match_charref_shorter: "match_charref s = Some (ref, r) \<Longrightarrow> length r < length s"
proof -
  assume a: "match_charref s = Some (ref, r)"
  then have p: "prefix (str ''&'') s" by (auto simp: match_charref_def split: if_splits)
  then obtain t where s: "s = cp CHR ''&'' # t" by (auto simp: prefix_def)
  have semi: "length (snd (opt_semicolon x)) \<le> length x" for x
    by (simp add: opt_semicolon_def)
  have d1: "length (dropWhile is_ascii_digit (drop 1 t)) \<le> length t"
    by (metis length_dropWhile_le length_drop diff_le_self le_trans)
  have d2: "length (dropWhile is_hex_digit (drop 2 t)) \<le> length t"
    by (metis length_dropWhile_le length_drop diff_le_self le_trans)
  have d3: "length (drop n t) \<le> length t" for n by simp
  from a s have "r = snd (opt_semicolon (dropWhile is_ascii_digit (drop 1 t))) \<or>
      r = snd (opt_semicolon (dropWhile is_hex_digit (drop 2 t))) \<or>
      r = snd (opt_semicolon (drop (length (take 32 (takeWhile is_name_char t))) t))"
    by (auto simp: match_charref_def Let_def split: if_splits prod.splits)
  with semi d1 d2 d3 have "length r \<le> length t"
    by (metis le_trans)
  with s show ?thesis by simp
qed

text \<open>
  \<open>_charref.sub(_replace_charref, s)\<close>: the matches are replaced from left to right, and
  what replaces a match is not searched again.
\<close>

function sub_charref :: "html_tables \<Rightarrow> ustring \<Rightarrow> ustring" where
  "sub_charref T [] = []"
| "sub_charref T (c # cs) =
     (case match_charref (c # cs) of
        Some (ref, rest) \<Rightarrow> replace_charref T ref @ sub_charref T rest
      | None \<Rightarrow> c # sub_charref T cs)"
  by pat_completeness auto
termination
  by (relation "measure (\<lambda>(T, s). length s)") (auto dest: match_charref_shorter)

text \<open>A text holds a character reference when the pattern matches somewhere in it.\<close>

fun has_charref :: "ustring \<Rightarrow> bool" where
  "has_charref [] = False"
| "has_charref (c # cs) = (match_charref (c # cs) \<noteq> None \<or> has_charref cs)"

text \<open>
  The two entries of \<open>html.entities.html5\<close> that the closed examples of the decoding
  need; the other two tables are not consulted for a named reference.
\<close>

definition amp_lt_tables :: html_tables where
  "amp_lt_tables =
     \<lparr>html5 = [(str ''amp;'', str ''&''), (str ''lt;'', str ''<'')],
      invalid_charrefs = [], invalid_codepoints = []\<rparr>"

subsection \<open>_detect_status and _detect_status_from_data_text\<close>

definition detect_status :: "ustring list \<Rightarrow> ustring" where
  "detect_status classes =
     (let class_str = lower (join_space classes) in
      if str_in (str ''free'') class_str then STATUS_FREE
      else if str_in (str ''reserved'') class_str then STATUS_RESERVED
      else if str_in (str ''occupied'') class_str then STATUS_OCCUPIED
      else STATUS_UNKNOWN)"

definition detect_status_from_data_text :: "(ustring \<Rightarrow> ustring) \<Rightarrow> ustring \<Rightarrow> ustring" where
  "detect_status_from_data_text charref_sub data_text =
     (if data_text = [] then STATUS_UNKNOWN
      else
        let text = double_unescape charref_sub data_text in
        if str_in (str ''unit_free'') text then STATUS_FREE
        else if str_in (str ''unit_reserved'') text then STATUS_RESERVED
        else if str_in (str ''unit_occupied'') text then STATUS_OCCUPIED
        else STATUS_UNKNOWN)"

subsection \<open>_parse_data_text\<close>

text \<open>
  \<open>re.split(r"<br\s*/?>", text)\<close>. \<open>match_br s\<close> is the rest of \<open>s\<close> after a match of
  the pattern at its start. The three character classes of the pattern exclude each other,
  so the greedy match is the only one.
\<close>

definition match_br :: "ustring \<Rightarrow> ustring option" where
  "match_br s =
     (if prefix (str ''<br'') s then
        let r1 = dropWhile is_space (drop 3 s);
            r2 = (if prefix (str ''/'') r1 then drop 1 r1 else r1)
        in if prefix (str ''>'') r2 then Some (drop 1 r2) else None
      else None)"

lemma match_br_shorter: "match_br s = Some r \<Longrightarrow> length r < length s"
proof -
  assume a: "match_br s = Some r"
  have le: "length (dropWhile is_space (drop 3 s)) \<le> length s - 3"
    by (metis length_dropWhile_le length_drop)
  from a have p: "prefix (str ''<br'') s" by (auto simp: match_br_def split: if_splits)
  then have "3 \<le> length s" by (auto simp: prefix_def)
  with a le show ?thesis
    by (auto simp: match_br_def Let_def split: if_splits)
qed

function split_br :: "ustring \<Rightarrow> ustring \<Rightarrow> ustring list" where
  "split_br part [] = [part]"
| "split_br part (c # cs) =
     (case match_br (c # cs) of
        Some rest \<Rightarrow> part # split_br [] rest
      | None \<Rightarrow> split_br (part @ [c]) cs)"
  by pat_completeness auto
termination
  by (relation "measure (\<lambda>(part, s). length s)") (auto dest: match_br_shorter)

text \<open>
  \<open>re.sub(r"<[^>]+>", "", part)\<close>. \<open>match_tag s\<close> is the rest of \<open>s\<close> after a tag at
  its start: \<open><\<close>, one character or more other than \<open>>\<close>, and \<open>>\<close>.
\<close>

definition match_tag :: "ustring \<Rightarrow> ustring option" where
  "match_tag s =
     (if prefix (str ''<'') s then
        let body = takeWhile (\<lambda>c. c \<noteq> cp CHR ''>'') (drop 1 s);
            rest = dropWhile (\<lambda>c. c \<noteq> cp CHR ''>'') (drop 1 s)
        in if body \<noteq> [] \<and> rest \<noteq> [] then Some (drop 1 rest) else None
      else None)"

lemma match_tag_shorter: "match_tag s = Some r \<Longrightarrow> length r < length s"
proof -
  assume a: "match_tag s = Some r"
  have le: "length (dropWhile (\<lambda>c. c \<noteq> cp CHR ''>'') (drop 1 s)) \<le> length s - 1"
    by (metis length_dropWhile_le length_drop)
  from a have "prefix (str ''<'') s" by (auto simp: match_tag_def split: if_splits)
  then have "1 \<le> length s" by (auto simp: prefix_def)
  with a le show ?thesis
    by (auto simp: match_tag_def Let_def split: if_splits)
qed

function sub_tags :: "ustring \<Rightarrow> ustring" where
  "sub_tags [] = []"
| "sub_tags (c # cs) =
     (case match_tag (c # cs) of
        Some rest \<Rightarrow> sub_tags rest
      | None \<Rightarrow> c # sub_tags cs)"
  by pat_completeness auto
termination
  by (relation "measure length") (auto dest: match_tag_shorter)

text \<open>
  The loop over the parts, with the dict \<open>details\<close> as accumulator;
  \<open>key, _, val = clean.partition(":")\<close> cuts at the first colon.
\<close>

fun parse_parts :: "ustring list \<Rightarrow> info \<Rightarrow> info" where
  "parse_parts [] details = details"
| "parse_parts (part # parts) details =
     (let clean = strip (sub_tags part) in
      if clean = [] then parse_parts parts details
      else if cp CHR '':'' \<in> set clean then
        let key = takeWhile (\<lambda>c. c \<noteq> cp CHR '':'') clean;
            val = drop 1 (dropWhile (\<lambda>c. c \<noteq> cp CHR '':'') clean)
        in parse_parts parts (AList.update (strip key) (strip val) details)
      else parse_parts parts details)"

definition parse_data_text :: "(ustring \<Rightarrow> ustring) \<Rightarrow> ustring \<Rightarrow> info" where
  "parse_data_text charref_sub data_text =
     (if data_text = [] then []
      else
        let text = double_unescape charref_sub data_text;
            parts = split_br [] text
        in parse_parts parts [])"

subsection \<open>parse_apartments\<close>

text \<open>\<open>re.search(r"(\d+)", s)\<close>: the first run of decimal digits, if there is one.\<close>

definition search_digits :: "(int \<Rightarrow> nat option) \<Rightarrow> ustring \<Rightarrow> ustring option" where
  "search_digits decimal s =
     (let run = takeWhile (is_digit decimal) (dropWhile (\<lambda>c. \<not> is_digit decimal c) s) in
      if run = [] then None else Some run)"

text \<open>
  The numeric value of a monetary ustring, as the loop body computes it for
  \<open>kaltmiete_str\<close> and for \<open>nebenkosten_str\<close>: 0 unless the ustring is non-empty and
  holds a run of digits.
\<close>

definition parse_amount :: "(int \<Rightarrow> nat option) \<Rightarrow> ustring \<Rightarrow> nat" where
  "parse_amount decimal amount_str =
     (if amount_str \<noteq> [] then
        (case search_digits decimal amount_str of
           Some m \<Rightarrow> int_of_digits decimal m
         | None \<Rightarrow> 0)
      else 0)"

text \<open>\<open>f"{n} \<dots>" if n else ""\<close>, the amount followed by a space and the euro sign.\<close>

definition format_euro :: "nat \<Rightarrow> ustring" where
  "format_euro n = (if n \<noteq> 0 then str_nat n @ str '' '' @ euro else [])"

text \<open>
  \<open>re.sub(r"\s*Nr\.\s*\S+\s*$", "", title)\<close>. \<open>match_nr s\<close> says that the pattern matches
  at the start of \<open>s\<close>; a match always runs to the end of the ustring, so the substitution
  cuts the title at the first position where the pattern matches.
\<close>

definition match_nr :: "ustring \<Rightarrow> bool" where
  "match_nr s =
     (let r0 = dropWhile is_space s in
      if prefix (str ''Nr.'') r0 then
        let token = dropWhile is_space (drop 3 r0);
            rest = dropWhile is_space (dropWhile (\<lambda>c. \<not> is_space c) token)
        in token \<noteq> [] \<and> rest = []
      else False)"

fun sub_nr :: "ustring \<Rightarrow> ustring" where
  "sub_nr [] = []"
| "sub_nr (c # cs) = (if match_nr (c # cs) then [] else c # sub_nr cs)"

text \<open>
  A listing element as BeautifulSoup hands it over: the text of \<open>link.get_text(strip=True)\<close>
  and the attributes \<open>class\<close>, \<open>title\<close> and \<open>data-text\<close>, each of which may be missing.
  The input of the parser is the list \<open>apt_links\<close> that \<open>soup.find_all\<close> returns.
\<close>

record link =
  get_text :: ustring
  attr_class :: "ustring list option"
  attr_title :: "ustring option"
  attr_data_text :: "ustring option"

text \<open>The record that one round of the loop stores under \<open>apt_number\<close>.\<close>

definition apartment_info ::
  "(int \<Rightarrow> nat option) \<Rightarrow> (ustring \<Rightarrow> ustring) \<Rightarrow> link \<Rightarrow> ustring \<Rightarrow> info" where
  "apartment_info decimal charref_sub lnk apt_number =
     (let classes = (case attr_class lnk of Some cs \<Rightarrow> cs | None \<Rightarrow> []);
          title = strip (case attr_title lnk of Some t \<Rightarrow> t | None \<Rightarrow> []);
          data_text = (case attr_data_text lnk of Some d \<Rightarrow> d | None \<Rightarrow> []);
          apt_type = strip (sub_nr title);
          status0 = detect_status classes;
          status = (if status0 = STATUS_UNKNOWN
                    then detect_status_from_data_text charref_sub data_text else status0);
          details = parse_data_text charref_sub data_text;
          kaltmiete_str = get_default details (str ''Mieth'' @ o_umlaut @ str ''he'') [];
          nebenkosten_str = get_default details (str ''Nebenkosten'') [];
          kaltmiete = parse_amount decimal kaltmiete_str;
          nebenkosten = parse_amount decimal nebenkosten_str;
          total = kaltmiete + nebenkosten
      in [(str ''name'', str ''Apartment '' @ apt_number),
          (str ''type'', if apt_type \<noteq> [] then apt_type else (str ''Unknown'')),
          (str ''status'', status),
          (str ''size'', get_default details (str ''Gr'' @ o_umlaut @ sharp_s @ str ''e'') []),
          (str ''kaltmiete'', format_euro kaltmiete),
          (str ''nebenkosten'', format_euro nebenkosten),
          (str ''total'', format_euro total)])"

fun apartments_loop ::
  "(int \<Rightarrow> nat option) \<Rightarrow> (ustring \<Rightarrow> ustring) \<Rightarrow> link list \<Rightarrow> ustring set \<Rightarrow> snapshot \<Rightarrow>
   snapshot" where
  "apartments_loop decimal charref_sub [] seen apartments = apartments"
| "apartments_loop decimal charref_sub (lnk # apt_links) seen apartments =
     (let apt_number = get_text lnk in
      if apt_number = [] \<or> apt_number \<in> seen then
        apartments_loop decimal charref_sub apt_links seen apartments
      else
        apartments_loop decimal charref_sub apt_links (insert apt_number seen)
          (AList.update apt_number (apartment_info decimal charref_sub lnk apt_number) apartments))"

definition parse_apartments ::
  "(int \<Rightarrow> nat option) \<Rightarrow> (ustring \<Rightarrow> ustring) \<Rightarrow> link list \<Rightarrow> snapshot" where
  "parse_apartments decimal charref_sub apt_links = apartments_loop decimal charref_sub apt_links {} []"

section \<open>main.py: find_newly_available\<close>

text \<open>
  The two flags of the loop body. \<open>previous.get(apt_id)\<close> is falsy when the id is missing
  and when its record is the empty dict; \<open>info.get("rent")\<close> is truthy when the key
  \<open>rent\<close> is there with a non-empty value.
\<close>

definition was_unavailable :: "snapshot \<Rightarrow> ustring \<Rightarrow> bool" where
  "was_unavailable previous apt_id =
     (case map_of previous apt_id of
        None \<Rightarrow> True
      | Some prev_info \<Rightarrow>
          if prev_info = [] then True
          else map_of prev_info (str ''status'') \<in> {Some STATUS_OCCUPIED, Some STATUS_RESERVED})"

definition is_available :: "info \<Rightarrow> ustring \<Rightarrow> bool" where
  "is_available info status =
     (status = STATUS_FREE \<or>
      (status = str ''unknown'' \<and>
       (case map_of info (str ''rent'') of None \<Rightarrow> False | Some rent \<Rightarrow> rent \<noteq> [])))"

text \<open>
  The loop over \<open>current.items()\<close>, with the dict under construction as accumulator.
  \<open>info["status"]\<close> raises \<open>KeyError\<close> on a record without that key.
\<close>

fun newly_available_loop :: "snapshot \<Rightarrow> snapshot \<Rightarrow> snapshot \<Rightarrow> error + snapshot" where
  "newly_available_loop previous [] newly_available = Inr newly_available"
| "newly_available_loop previous ((apt_id, info) # rest) newly_available =
     (case map_of info (str ''status'') of
        None \<Rightarrow> Inl (KeyError (str ''status''))
      | Some status \<Rightarrow>
          if is_available info status \<and> was_unavailable previous apt_id
          then newly_available_loop previous rest (AList.update apt_id info newly_available)
          else newly_available_loop previous rest newly_available)"

definition find_newly_available :: "snapshot option \<Rightarrow> snapshot \<Rightarrow> error + snapshot" where
  "find_newly_available previous current =
     (case previous of
        None \<Rightarrow> Inr []
      | Some prev \<Rightarrow> newly_available_loop prev current [])"

text \<open>
  A snapshot is a dict: its keys are distinct. Its records carry a status, as every record
  that \<open>parse_apartments\<close> builds and \<open>save_state\<close> writes does.
\<close>

definition is_snapshot :: "snapshot \<Rightarrow> bool" where
  "is_snapshot S =
     (distinct (map fst S) \<and> list_all (\<lambda>(apt_id, info). map_of info (str ''status'') \<noteq> None) S)"

section \<open>The snapshot differ\<close>

subsection \<open>The loop of find_newly_available\<close>

lemma loop_total:
  "list_all (\<lambda>(apt_id, info). map_of info (str ''status'') \<noteq> None) cur \<Longrightarrow>
   \<exists>d. newly_available_loop prev cur acc = Inr d"
  by (induction cur arbitrary: acc) (auto split: option.splits)

lemma loop_keeps:
  "newly_available_loop prev cur acc = Inr d \<Longrightarrow> k \<notin> fst ` set cur \<Longrightarrow> map_of d k = map_of acc k"
proof (induction cur arbitrary: acc)
  case Nil
  then show ?case by simp
next
  case (Cons p cur)
  obtain a info where p: "p = (a, info)" by (cases p)
  from Cons.prems(2) p have ne: "k \<noteq> a" and nin: "k \<notin> fst ` set cur" by auto
  from Cons.prems(1) p obtain acc' where
    step: "newly_available_loop prev cur acc' = Inr d" and
    acc': "acc' = acc \<or> acc' = AList.update a info acc"
    by (auto split: option.splits if_splits)
  from Cons.IH[OF step nin] have "map_of d k = map_of acc' k" .
  with acc' ne show ?case by (auto simp: update_conv')
qed

lemma loop_sound:
  "newly_available_loop prev cur acc = Inr d \<Longrightarrow> map_of d k = Some info \<Longrightarrow>
   map_of acc k = Some info \<or>
   ((k, info) \<in> set cur \<and> was_unavailable prev k \<and>
    (\<exists>st. map_of info (str ''status'') = Some st \<and> is_available info st))"
proof (induction cur arbitrary: acc)
  case Nil
  then show ?case by simp
next
  case (Cons p cur)
  obtain a i where p: "p = (a, i)" by (cases p)
  show ?case
  proof (cases "map_of i (str ''status'')")
    case None
    with Cons.prems p show ?thesis by simp
  next
    case (Some st)
    show ?thesis
    proof (cases "is_available i st \<and> was_unavailable prev a")
      case True
      with Cons.prems p Some have "newly_available_loop prev cur (AList.update a i acc) = Inr d" by simp
      from Cons.IH[OF this Cons.prems(2)] show ?thesis
        using True Some p by (auto simp: update_conv' split: if_splits)
    next
      case False
      with Cons.prems p Some have "newly_available_loop prev cur acc = Inr d" by auto
      from Cons.IH[OF this Cons.prems(2)] show ?thesis using p by auto
    qed
  qed
qed

lemma loop_complete:
  "distinct (map fst cur) \<Longrightarrow> newly_available_loop prev cur acc = Inr d \<Longrightarrow>
   (k, info) \<in> set cur \<Longrightarrow> map_of info (str ''status'') = Some st \<Longrightarrow> is_available info st \<Longrightarrow>
   was_unavailable prev k \<Longrightarrow> map_of d k = Some info"
proof (induction cur arbitrary: acc)
  case Nil
  then show ?case by simp
next
  case (Cons p cur)
  obtain a i where p: "p = (a, i)" by (cases p)
  show ?case
  proof (cases "(k, info) = (a, i)")
    case True
    with Cons.prems p have step: "newly_available_loop prev cur (AList.update k info acc) = Inr d"
      by simp
    from Cons.prems(1) p True have "k \<notin> fst ` set cur" by auto
    from loop_keeps[OF step this] show ?thesis by (simp add: update_conv')
  next
    case False
    with Cons.prems(3) p have mem: "(k, info) \<in> set cur" by auto
    from Cons.prems(1) have d: "distinct (map fst cur)" by simp
    from Cons.prems(2) p obtain acc' where
      step: "newly_available_loop prev cur acc' = Inr d"
      by (auto split: option.splits if_splits)
    from Cons.IH[OF d step mem Cons.prems(4,5,6)] show ?thesis .
  qed
qed

lemma status_consts_distinct:
  "STATUS_FREE \<noteq> STATUS_OCCUPIED" "STATUS_FREE \<noteq> STATUS_RESERVED"
  "str ''unknown'' \<noteq> STATUS_OCCUPIED" "str ''unknown'' \<noteq> STATUS_RESERVED"
  "STATUS_UNKNOWN \<noteq> STATUS_OCCUPIED" "STATUS_UNKNOWN \<noteq> STATUS_RESERVED"
  by (simp_all add: STATUS_FREE_def STATUS_OCCUPIED_def STATUS_RESERVED_def STATUS_UNKNOWN_def)

lemma available_not_unavailable:
  "map_of previous apt_id = Some info \<Longrightarrow> map_of info (str ''status'') = Some st \<Longrightarrow>
   is_available info' st \<Longrightarrow> \<not> was_unavailable previous apt_id"
  using status_consts_distinct by (auto simp: was_unavailable_def is_available_def)

subsection \<open>First run\<close>

text \<open>
  C3. With no previous snapshot (the first run) the delta is empty, whatever the current
  snapshot holds.
\<close>

theorem first_run_empty_delta: "find_newly_available None current = Inr []"
  by (simp add: find_newly_available_def)

subsection \<open>No change, no delta\<close>

text \<open>
  C4. Diffing a snapshot against itself yields the empty delta. Moreover an id whose previous
  record has status free or unknown never enters the delta, whatever its current record is.
\<close>

theorem unchanged_snapshot_empty_delta:
  "(is_snapshot S \<longrightarrow> find_newly_available (Some S) S = Inr []) \<and>
   (map_of previous apt_id = Some prev_info \<and>
    map_of prev_info (str ''status'') \<in> {Some STATUS_FREE, Some STATUS_UNKNOWN} \<and>
    find_newly_available (Some previous) current = Inr delta
    \<longrightarrow> map_of delta apt_id = None)"
proof (intro conjI impI)
  assume snap: "is_snapshot S"
  then obtain d where d: "newly_available_loop S S [] = Inr d"
    using loop_total[of S S "[]"] by (auto simp: is_snapshot_def)
  have "map_of d k = None" for k
  proof (rule ccontr)
    assume "map_of d k \<noteq> None"
    then obtain info where "map_of d k = Some info" by auto
    from loop_sound[OF d this] obtain st where
      mem: "(k, info) \<in> set S" and was: "was_unavailable S k" and
      st: "map_of info (str ''status'') = Some st" and av: "is_available info st"
      by auto
    from snap mem have "map_of S k = Some info" by (simp add: is_snapshot_def)
    from available_not_unavailable[OF this st av] was show False by simp
  qed
  then have "d = []" by (metis map_of_eq_empty_iff)
  with d show "find_newly_available (Some S) S = Inr []"
    by (simp add: find_newly_available_def)
next
  assume a: "map_of previous apt_id = Some prev_info \<and>
    map_of prev_info (str ''status'') \<in> {Some STATUS_FREE, Some STATUS_UNKNOWN} \<and>
    find_newly_available (Some previous) current = Inr delta"
  then have nw: "\<not> was_unavailable previous apt_id"
    using status_consts_distinct by (auto simp: was_unavailable_def)
  from a have d: "newly_available_loop previous current [] = Inr delta"
    by (simp add: find_newly_available_def)
  show "map_of delta apt_id = None"
  proof (rule ccontr)
    assume "map_of delta apt_id \<noteq> None"
    then obtain info where "map_of delta apt_id = Some info" by auto
    from loop_sound[OF d this] nw show False by simp
  qed
qed

theorem unchanged_snapshot_empty_delta_witness:
  "is_snapshot
     [(str ''0.1'', [(str ''name'', str ''Apartment 0.1''), (str ''status'', str ''free''), (str ''kaltmiete'', str ''551'')]),
      (str ''0.2'', [(str ''name'', str ''Apartment 0.2''), (str ''status'', str ''occupied'')])] \<and>
   find_newly_available
     (Some [(str ''0.1'', [(str ''name'', str ''Apartment 0.1''), (str ''status'', str ''free''), (str ''kaltmiete'', str ''551'')]),
            (str ''0.2'', [(str ''name'', str ''Apartment 0.2''), (str ''status'', str ''occupied'')])])
     [(str ''0.1'', [(str ''name'', str ''Apartment 0.1''), (str ''status'', str ''free''), (str ''kaltmiete'', str ''551'')]),
      (str ''0.2'', [(str ''name'', str ''Apartment 0.2''), (str ''status'', str ''occupied'')])] = Inr [] \<and>
   map_of [(str ''0.3'', [(str ''name'', str ''Apartment 0.3''), (str ''status'', str ''unknown'')])] (str ''0.3'') =
     Some [(str ''name'', str ''Apartment 0.3''), (str ''status'', str ''unknown'')] \<and>
   find_newly_available
     (Some [(str ''0.3'', [(str ''name'', str ''Apartment 0.3''), (str ''status'', str ''unknown'')])])
     [(str ''0.3'', [(str ''name'', str ''Apartment 0.3''), (str ''status'', str ''free'')])] = Inr [] \<and>
   map_of ([] :: snapshot) (str ''0.3'') = None"
proof -
  let ?S = "[(str ''0.1'', [(str ''name'', str ''Apartment 0.1''), (str ''status'', str ''free''), (str ''kaltmiete'', str ''551'')]),
      (str ''0.2'', [(str ''name'', str ''Apartment 0.2''), (str ''status'', str ''occupied'')])]"
  let ?p = "[(str ''name'', str ''Apartment 0.3''), (str ''status'', str ''unknown'')]"
  let ?c = "[(str ''name'', str ''Apartment 0.3''), (str ''status'', str ''free'')]"
  have h: "is_snapshot ?S" by (simp add: is_snapshot_def)
  have same: "find_newly_available (Some ?S) ?S = Inr []"
    by (rule unchanged_snapshot_empty_delta[of ?S, THEN conjunct1, rule_format, OF h])
  have p: "map_of [(str ''0.3'', ?p)] (str ''0.3'') = Some ?p" by simp
  have s: "map_of ?p (str ''status'') \<in> {Some STATUS_FREE, Some STATUS_UNKNOWN}"
    by (simp add: STATUS_UNKNOWN_def)
  have d: "find_newly_available (Some [(str ''0.3'', ?p)]) [(str ''0.3'', ?c)] = Inr []"
    by (simp add: find_newly_available_def was_unavailable_def is_available_def
        STATUS_FREE_def STATUS_OCCUPIED_def STATUS_RESERVED_def)
  have none: "map_of ([] :: snapshot) (str ''0.3'') = None"
    by (rule unchanged_snapshot_empty_delta[THEN conjunct2, rule_format, OF conjI[OF p conjI[OF s d]]])
  from h same p d none show ?thesis by (intro conjI)
qed

subsection \<open>Previously unavailable\<close>

text \<open>
  C5. For snapshots \<open>previous\<close> and \<open>current\<close> the diff returns a delta, and a record
  is in the delta exactly when it is in \<open>current\<close>, it is available, and its id is either
  missing from \<open>previous\<close> or has the previous status occupied or reserved. The witness is
  the new-listing scenario: previous is the empty dict, current holds one free apartment C,
  and C is in the delta.
\<close>

theorem previously_unavailable_rule:
  assumes "is_snapshot previous" and "is_snapshot current"
  shows "\<exists>delta. find_newly_available (Some previous) current = Inr delta \<and>
     (\<forall>apt_id info. map_of delta apt_id = Some info \<longleftrightarrow>
        map_of current apt_id = Some info \<and>
        (\<exists>status. map_of info (str ''status'') = Some status \<and> is_available info status) \<and>
        (case map_of previous apt_id of
           None \<Rightarrow> True
         | Some prev_info \<Rightarrow>
             map_of prev_info (str ''status'') \<in> {Some STATUS_OCCUPIED, Some STATUS_RESERVED}))"
proof -
  from assms(2) obtain d where d: "newly_available_loop previous current [] = Inr d"
    using loop_total[of current previous "[]"] by (auto simp: is_snapshot_def)
  have was: "was_unavailable previous k =
      (case map_of previous k of None \<Rightarrow> True
       | Some prev_info \<Rightarrow> map_of prev_info (str ''status'') \<in> {Some STATUS_OCCUPIED, Some STATUS_RESERVED})" for k
  proof (cases "map_of previous k")
    case None
    then show ?thesis by (simp add: was_unavailable_def)
  next
    case (Some p)
    then have "(k, p) \<in> set previous" by (rule map_of_SomeD)
    with assms(1) have "map_of p (str ''status'') \<noteq> None"
      by (auto simp: is_snapshot_def list_all_iff)
    then have "p \<noteq> []" by auto
    with Some show ?thesis by (simp add: was_unavailable_def)
  qed
  have "map_of d k = Some info \<longleftrightarrow>
        map_of current k = Some info \<and>
        (\<exists>status. map_of info (str ''status'') = Some status \<and> is_available info status) \<and>
        was_unavailable previous k" for k info
  proof
    assume "map_of d k = Some info"
    from loop_sound[OF d this] assms(2) show "map_of current k = Some info \<and>
        (\<exists>status. map_of info (str ''status'') = Some status \<and> is_available info status) \<and>
        was_unavailable previous k"
      by (auto simp: is_snapshot_def)
  next
    assume r: "map_of current k = Some info \<and>
        (\<exists>status. map_of info (str ''status'') = Some status \<and> is_available info status) \<and>
        was_unavailable previous k"
    then obtain st where st: "map_of info (str ''status'') = Some st" "is_available info st" by auto
    from r have mem: "(k, info) \<in> set current" by (auto dest: map_of_SomeD)
    from assms(2) have "distinct (map fst current)" by (simp add: is_snapshot_def)
    from loop_complete[OF this d mem st] r show "map_of d k = Some info" by simp
  qed
  with d was show ?thesis by (simp add: find_newly_available_def)
qed

theorem previously_unavailable_rule_witness:
  "is_snapshot [] \<and>
   is_snapshot [(str ''C'', [(str ''name'', str ''Apartment C''), (str ''status'', str ''free'')])] \<and>
   (\<exists>delta. find_newly_available (Some []) [(str ''C'', [(str ''name'', str ''Apartment C''), (str ''status'', str ''free'')])]
        = Inr delta \<and>
      map_of delta (str ''C'') = Some [(str ''name'', str ''Apartment C''), (str ''status'', str ''free'')])"
proof -
  let ?cur = "[(str ''C'', [(str ''name'', str ''Apartment C''), (str ''status'', str ''free'')])]"
  have h1: "is_snapshot []" and h2: "is_snapshot ?cur" by (simp_all add: is_snapshot_def)
  from previously_unavailable_rule[OF h1 h2] obtain delta where
    d: "find_newly_available (Some []) ?cur = Inr delta" and
    r: "\<And>apt_id info. map_of delta apt_id = Some info \<longleftrightarrow>
        map_of ?cur apt_id = Some info \<and>
        (\<exists>status. map_of info (str ''status'') = Some status \<and> is_available info status) \<and>
        (case map_of [] apt_id of
           None \<Rightarrow> True
         | Some prev_info \<Rightarrow>
             map_of prev_info (str ''status'') \<in> {Some STATUS_OCCUPIED, Some STATUS_RESERVED})"
    by blast
  have "map_of delta (str ''C'') = Some [(str ''name'', str ''Apartment C''), (str ''status'', str ''free'')]"
    by (simp add: r is_available_def STATUS_FREE_def)
  with d h1 h2 show ?thesis by blast
qed

subsection \<open>Unknown status with a rent\<close>

text \<open>
  C1. The differ reads the key \<open>rent\<close>, which no record of \<open>parse_apartments\<close> has: the
  cold rent is stored under \<open>kaltmiete\<close>. A listing B with no status in its class tokens
  or its blob and a rent of 551 is parsed to a record of status unknown with that cold
  rent; with B reserved before and this record now, the delta is empty.
\<close>

theorem ambiguous_priced_not_reported:
  "parse_apartments unicode_decimal id
     [\<lparr>get_text = str ''B'', attr_class = Some [str ''apartment''],
       attr_title = Some (str ''Komfort-Apartment Nr. B''),
       attr_data_text = Some (str ''Mieth'' @ o_umlaut @ str ''he: 551 '' @ euro @
                              str ''<br>Nebenkosten: 167 '' @ euro)\<rparr>] =
   [(str ''B'', [(str ''name'', str ''Apartment B''), (str ''type'', str ''Komfort-Apartment''),
             (str ''status'', str ''unknown''), (str ''size'', []), (str ''kaltmiete'', str ''551 '' @ euro),
             (str ''nebenkosten'', str ''167 '' @ euro), (str ''total'', str ''718 '' @ euro)])] \<and>
   find_newly_available
     (Some [(str ''B'', [(str ''name'', str ''Apartment B''), (str ''type'', str ''Komfort-Apartment''),
                     (str ''status'', str ''reserved''), (str ''size'', []), (str ''kaltmiete'', str ''551 '' @ euro),
                     (str ''nebenkosten'', str ''167 '' @ euro), (str ''total'', str ''718 '' @ euro)])])
     [(str ''B'', [(str ''name'', str ''Apartment B''), (str ''type'', str ''Komfort-Apartment''),
               (str ''status'', str ''unknown''), (str ''size'', []), (str ''kaltmiete'', str ''551 '' @ euro),
               (str ''nebenkosten'', str ''167 '' @ euro), (str ''total'', str ''718 '' @ euro)])]
   = Inr []"
proof
  show "parse_apartments unicode_decimal id
     [\<lparr>get_text = str ''B'', attr_class = Some [str ''apartment''],
       attr_title = Some (str ''Komfort-Apartment Nr. B''),
       attr_data_text = Some (str ''Mieth'' @ o_umlaut @ str ''he: 551 '' @ euro @
                              str ''<br>Nebenkosten: 167 '' @ euro)\<rparr>] =
   [(str ''B'', [(str ''name'', str ''Apartment B''), (str ''type'', str ''Komfort-Apartment''),
             (str ''status'', str ''unknown''), (str ''size'', []), (str ''kaltmiete'', str ''551 '' @ euro),
             (str ''nebenkosten'', str ''167 '' @ euro), (str ''total'', str ''718 '' @ euro)])]"
    by code_simp
  show "find_newly_available
     (Some [(str ''B'', [(str ''name'', str ''Apartment B''), (str ''type'', str ''Komfort-Apartment''),
                     (str ''status'', str ''reserved''), (str ''size'', []), (str ''kaltmiete'', str ''551 '' @ euro),
                     (str ''nebenkosten'', str ''167 '' @ euro), (str ''total'', str ''718 '' @ euro)])])
     [(str ''B'', [(str ''name'', str ''Apartment B''), (str ''type'', str ''Komfort-Apartment''),
               (str ''status'', str ''unknown''), (str ''size'', []), (str ''kaltmiete'', str ''551 '' @ euro),
               (str ''nebenkosten'', str ''167 '' @ euro), (str ''total'', str ''718 '' @ euro)])]
   = Inr []"
    by (simp add: find_newly_available_def is_available_def STATUS_FREE_def)
qed

section \<open>The page parser\<close>

subsection \<open>Substrings of the joined class tokens\<close>

lemma str_in_sublist: "str_in needle hay = sublist needle hay"
  by (induction hay) (simp_all add: sublist_Cons_right)

lemma lower_join_space: "lower (join_space cs) = join_space (map lower cs)"
  by (induction cs rule: join_space.induct) (simp_all add: lower_def lower_char_def)

lemma sublist_sep:
  assumes "needle \<noteq> []" and "sep \<notin> set needle"
  shows "sublist needle (x @ sep # y) \<longleftrightarrow> sublist needle x \<or> sublist needle y"
proof
  assume "sublist needle (x @ sep # y)"
  then consider "sublist needle x" | "sublist needle (sep # y)"
    | xs1 xs2 where "needle = xs1 @ xs2" "suffix xs1 x" "prefix xs2 (sep # y)"
    by (auto simp: sublist_append)
  then show "sublist needle x \<or> sublist needle y"
  proof cases
    case 1
    then show ?thesis by simp
  next
    case 2
    with assms show ?thesis
      by (cases needle) (auto simp: sublist_Cons_right)
  next
    case 3
    show ?thesis
    proof (cases xs2)
      case Nil
      with 3 have "suffix needle x" by simp
      then show ?thesis by (auto simp: suffix_def)
    next
      case (Cons a as)
      with 3 have "a = sep" by simp
      with 3 Cons assms(2) show ?thesis by simp
    qed
  qed
next
  assume "sublist needle x \<or> sublist needle y"
  then show "sublist needle (x @ sep # y)"
    by (auto simp: sublist_append sublist_Cons_right)
qed

lemma sublist_join_space:
  assumes "needle \<noteq> []" and "cp CHR '' '' \<notin> set needle"
  shows "sublist needle (join_space cs) \<longleftrightarrow> (\<exists>c\<in>set cs. sublist needle c)"
  using assms
proof (induction cs rule: join_space.induct)
  case 1
  then show ?case by simp
next
  case (2 x)
  then show ?case by simp
next
  case (3 x y ys)
  then show ?case by (simp add: sublist_sep)
qed

lemma str_in_class_str:
  assumes "needle \<noteq> []" and "cp CHR '' '' \<notin> set needle"
  shows "str_in needle (lower (join_space classes)) \<longleftrightarrow> (\<exists>c\<in>set classes. sublist needle (lower c))"
  using sublist_join_space[OF assms, of "map lower classes"]
  by (simp add: str_in_sublist lower_join_space)

lemma unescape_Nil: "unescape charref_sub [] = []"
  by (simp add: unescape_def)

lemma status_neq_unknown:
  "STATUS_FREE \<noteq> STATUS_UNKNOWN" "STATUS_RESERVED \<noteq> STATUS_UNKNOWN"
  "STATUS_OCCUPIED \<noteq> STATUS_UNKNOWN"
  by (simp_all add: STATUS_FREE_def STATUS_OCCUPIED_def STATUS_RESERVED_def STATUS_UNKNOWN_def)

lemma detect_status_tokens:
  "detect_status classes =
     (if \<exists>c\<in>set classes. sublist (str ''free'') (lower c) then STATUS_FREE
      else if \<exists>c\<in>set classes. sublist (str ''reserved'') (lower c) then STATUS_RESERVED
      else if \<exists>c\<in>set classes. sublist (str ''occupied'') (lower c) then STATUS_OCCUPIED
      else STATUS_UNKNOWN)"
  by (simp add: detect_status_def str_in_class_str)

lemma detect_status_from_data_text_markers:
  "detect_status_from_data_text sub data_text =
     (let text = double_unescape sub data_text in
      if sublist (str ''unit_free'') text then STATUS_FREE
      else if sublist (str ''unit_reserved'') text then STATUS_RESERVED
      else if sublist (str ''unit_occupied'') text then STATUS_OCCUPIED
      else STATUS_UNKNOWN)"
  by (simp add: detect_status_from_data_text_def str_in_sublist double_unescape_def unescape_Nil Let_def)

lemma apartment_info_status:
  "map_of (apartment_info decimal sub lnk apt_number) (str ''status'') =
     Some (let classes = (case attr_class lnk of Some cs \<Rightarrow> cs | None \<Rightarrow> []);
               text = double_unescape sub (case attr_data_text lnk of Some d \<Rightarrow> d | None \<Rightarrow> [])
           in if \<exists>c\<in>set classes. sublist (str ''free'') (lower c) then STATUS_FREE
              else if \<exists>c\<in>set classes. sublist (str ''reserved'') (lower c) then STATUS_RESERVED
              else if \<exists>c\<in>set classes. sublist (str ''occupied'') (lower c) then STATUS_OCCUPIED
              else if sublist (str ''unit_free'') text then STATUS_FREE
              else if sublist (str ''unit_reserved'') text then STATUS_RESERVED
              else if sublist (str ''unit_occupied'') text then STATUS_OCCUPIED
              else STATUS_UNKNOWN)"
proof -
  define classes where "classes = (case attr_class lnk of Some cs \<Rightarrow> cs | None \<Rightarrow> [])"
  define data_text where "data_text = (case attr_data_text lnk of Some d \<Rightarrow> d | None \<Rightarrow> [])"
  have "map_of (apartment_info decimal sub lnk apt_number) (str ''status'') =
      Some (if detect_status classes = STATUS_UNKNOWN
            then detect_status_from_data_text sub data_text else detect_status classes)"
    by (simp add: apartment_info_def Let_def classes_def data_text_def)
  also have "\<dots> = Some (let text = double_unescape sub data_text
           in if \<exists>c\<in>set classes. sublist (str ''free'') (lower c) then STATUS_FREE
              else if \<exists>c\<in>set classes. sublist (str ''reserved'') (lower c) then STATUS_RESERVED
              else if \<exists>c\<in>set classes. sublist (str ''occupied'') (lower c) then STATUS_OCCUPIED
              else if sublist (str ''unit_free'') text then STATUS_FREE
              else if sublist (str ''unit_reserved'') text then STATUS_RESERVED
              else if sublist (str ''unit_occupied'') text then STATUS_OCCUPIED
              else STATUS_UNKNOWN)"
    using status_neq_unknown
    by (simp only: detect_status_tokens detect_status_from_data_text_markers Let_def) simp
  finally show ?thesis
    unfolding classes_def data_text_def Let_def .
qed

subsection \<open>The loop of parse_apartments\<close>

lemma apartments_loop_inv:
  assumes "seen = fst ` set apartments" and "distinct (map fst apartments)"
  shows "distinct (map fst (apartments_loop decimal sub links seen apartments)) \<and>
    (\<forall>k. map_of (apartments_loop decimal sub links seen apartments) k =
       (case map_of apartments k of
          Some v \<Rightarrow> Some v
        | None \<Rightarrow> if k = [] then None
                  else map_option (\<lambda>l. apartment_info decimal sub l k) (find (\<lambda>l. get_text l = k) links)))"
  using assms
proof (induction links arbitrary: seen apartments)
  case Nil
  then show ?case by (auto split: option.splits)
next
  case (Cons lnk links)
  let ?a = "get_text lnk"
  show ?case
  proof (cases "?a = [] \<or> ?a \<in> seen")
    case True
    have skip: "apartments_loop decimal sub (lnk # links) seen apartments = apartments_loop decimal sub links seen apartments"
      using True by (auto simp: Let_def)
    have "map_of apartments ?a \<noteq> None" if "?a \<noteq> []"
      using that True Cons.prems(1) by (simp add: map_of_eq_None_iff)
    then have "(case map_of apartments k of
          Some v \<Rightarrow> Some v
        | None \<Rightarrow> if k = [] then None
                  else map_option (\<lambda>l. apartment_info decimal sub l k) (find (\<lambda>l. get_text l = k) (lnk # links))) =
       (case map_of apartments k of
          Some v \<Rightarrow> Some v
        | None \<Rightarrow> if k = [] then None
                  else map_option (\<lambda>l. apartment_info decimal sub l k) (find (\<lambda>l. get_text l = k) links))" for k
      by (auto split: option.splits)
    with Cons.IH[OF Cons.prems] skip show ?thesis by simp
  next
    case False
    let ?v = "apartment_info decimal sub lnk ?a"
    have step: "apartments_loop decimal sub (lnk # links) seen apartments =
        apartments_loop decimal sub links (insert ?a seen) (AList.update ?a ?v apartments)"
      using False by (simp add: Let_def)
    have s: "insert ?a seen = fst ` set (AList.update ?a ?v apartments)"
      using Cons.prems(1) by (simp add: dom_update)
    have d: "distinct (map fst (AList.update ?a ?v apartments))"
      using Cons.prems(2) by (simp add: distinct_update)
    have none: "map_of apartments ?a = None"
      using False Cons.prems(1) by (simp add: map_of_eq_None_iff)
    have "(case map_of (AList.update ?a ?v apartments) k of
          Some v \<Rightarrow> Some v
        | None \<Rightarrow> if k = [] then None
                  else map_option (\<lambda>l. apartment_info decimal sub l k) (find (\<lambda>l. get_text l = k) links)) =
       (case map_of apartments k of
          Some v \<Rightarrow> Some v
        | None \<Rightarrow> if k = [] then None
                  else map_option (\<lambda>l. apartment_info decimal sub l k) (find (\<lambda>l. get_text l = k) (lnk # links)))" for k
      using none False by (auto simp: update_conv' split: option.splits)
    with Cons.IH[OF s d] step show ?thesis by simp
  qed
qed

lemma parse_apartments_distinct: "distinct (map fst (parse_apartments decimal sub links))"
  using apartments_loop_inv[of "{}" "[]" decimal sub links] by (simp add: parse_apartments_def)

lemma parse_apartments_lookup:
  "map_of (parse_apartments decimal sub links) k =
     (if k = [] then None
      else map_option (\<lambda>l. apartment_info decimal sub l k) (find (\<lambda>l. get_text l = k) links))"
  using apartments_loop_inv[of "{}" "[]" decimal sub links] by (simp add: parse_apartments_def)

lemma parse_apartments_entry:
  assumes "(k, info) \<in> set (parse_apartments decimal sub links)"
  shows "k \<noteq> [] \<and> (\<exists>lnk. find (\<lambda>l. get_text l = k) links = Some lnk \<and> get_text lnk = k \<and>
           lnk \<in> set links \<and> info = apartment_info decimal sub lnk k)"
proof -
  from assms parse_apartments_distinct have "map_of (parse_apartments decimal sub links) k = Some info"
    by simp
  then show ?thesis
    by (auto simp: parse_apartments_lookup find_Some_iff split: if_splits)
qed

subsection \<open>One record per id, from the first listing\<close>

text \<open>
  C6. The ids of the parsed snapshot are distinct; they are the non-empty texts of the
  listing elements; and the record stored under an id is the one built from the first
  element of the page with that text. In the witness two elements share the id 0.1 and a
  third has an empty text: the snapshot has the single id 0.1, with the attributes of the
  first element.
\<close>

theorem first_listing_wins:
  "distinct (map fst (parse_apartments decimal sub links)) \<and>
   fst ` set (parse_apartments decimal sub links) = {get_text l | l. l \<in> set links \<and> get_text l \<noteq> []} \<and>
   (\<forall>apt_id. map_of (parse_apartments decimal sub links) apt_id =
      (if apt_id = [] then None
       else map_option (\<lambda>l. apartment_info decimal sub l apt_id) (find (\<lambda>l. get_text l = apt_id) links)))"
proof (intro conjI allI)
  show "distinct (map fst (parse_apartments decimal sub links))"
    by (rule parse_apartments_distinct)
  show "map_of (parse_apartments decimal sub links) apt_id =
      (if apt_id = [] then None
       else map_option (\<lambda>l. apartment_info decimal sub l apt_id) (find (\<lambda>l. get_text l = apt_id) links))"
    for apt_id
    by (rule parse_apartments_lookup)
  have "k \<in> fst ` set (parse_apartments decimal sub links) \<longleftrightarrow>
        k \<in> {get_text l | l. l \<in> set links \<and> get_text l \<noteq> []}" for k
  proof -
    have "k \<in> fst ` set (parse_apartments decimal sub links) \<longleftrightarrow> map_of (parse_apartments decimal sub links) k \<noteq> None"
      by (simp add: map_of_eq_None_iff)
    also have "\<dots> \<longleftrightarrow> k \<noteq> [] \<and> find (\<lambda>l. get_text l = k) links \<noteq> None"
      by (simp add: parse_apartments_lookup)
    also have "\<dots> \<longleftrightarrow> k \<in> {get_text l | l. l \<in> set links \<and> get_text l \<noteq> []}"
      by (auto simp: find_None_iff)
    finally show ?thesis .
  qed
  then show "fst ` set (parse_apartments decimal sub links) = {get_text l | l. l \<in> set links \<and> get_text l \<noteq> []}"
    by blast
qed

theorem first_listing_wins_witness:
  "distinct (map fst (parse_apartments unicode_decimal id
     [\<lparr>get_text = str ''0.1'', attr_class = Some [str ''apartment'', str ''free''],
       attr_title = Some (str ''Komfort-Apartment Nr. 0.1''), attr_data_text = None\<rparr>,
      \<lparr>get_text = str ''0.1'', attr_class = Some [str ''apartment'', str ''occupied''],
       attr_title = Some (str ''Premium-Apartment Nr. 0.1''), attr_data_text = None\<rparr>,
      \<lparr>get_text = [], attr_class = Some [str ''apartment'', str ''reserved''],
       attr_title = None, attr_data_text = None\<rparr>])) \<and>
   fst ` set (parse_apartments unicode_decimal id
     [\<lparr>get_text = str ''0.1'', attr_class = Some [str ''apartment'', str ''free''],
       attr_title = Some (str ''Komfort-Apartment Nr. 0.1''), attr_data_text = None\<rparr>,
      \<lparr>get_text = str ''0.1'', attr_class = Some [str ''apartment'', str ''occupied''],
       attr_title = Some (str ''Premium-Apartment Nr. 0.1''), attr_data_text = None\<rparr>,
      \<lparr>get_text = [], attr_class = Some [str ''apartment'', str ''reserved''],
       attr_title = None, attr_data_text = None\<rparr>]) = {(str ''0.1'')} \<and>
   map_of (parse_apartments unicode_decimal id
     [\<lparr>get_text = str ''0.1'', attr_class = Some [str ''apartment'', str ''free''],
       attr_title = Some (str ''Komfort-Apartment Nr. 0.1''), attr_data_text = None\<rparr>,
      \<lparr>get_text = str ''0.1'', attr_class = Some [str ''apartment'', str ''occupied''],
       attr_title = Some (str ''Premium-Apartment Nr. 0.1''), attr_data_text = None\<rparr>,
      \<lparr>get_text = [], attr_class = Some [str ''apartment'', str ''reserved''],
       attr_title = None, attr_data_text = None\<rparr>]) (str ''0.1'') =
   Some [(str ''name'', str ''Apartment 0.1''), (str ''type'', str ''Komfort-Apartment''), (str ''status'', str ''free''),
         (str ''size'', []), (str ''kaltmiete'', []), (str ''nebenkosten'', []), (str ''total'', [])]"
proof -
  let ?l1 = "\<lparr>get_text = str ''0.1'', attr_class = Some [str ''apartment'', str ''free''],
       attr_title = Some (str ''Komfort-Apartment Nr. 0.1''), attr_data_text = None\<rparr>"
  let ?l2 = "\<lparr>get_text = str ''0.1'', attr_class = Some [str ''apartment'', str ''occupied''],
       attr_title = Some (str ''Premium-Apartment Nr. 0.1''), attr_data_text = None\<rparr>"
  let ?l3 = "\<lparr>get_text = [], attr_class = Some [str ''apartment'', str ''reserved''],
       attr_title = None, attr_data_text = None\<rparr>"
  let ?P = "parse_apartments unicode_decimal id [?l1, ?l2, ?l3]"
  note fw = first_listing_wins[of unicode_decimal id "[?l1, ?l2, ?l3]"]
  have rec: "apartment_info unicode_decimal id ?l1 (str ''0.1'') =
      [(str ''name'', str ''Apartment 0.1''), (str ''type'', str ''Komfort-Apartment''), (str ''status'', str ''free''),
       (str ''size'', []), (str ''kaltmiete'', []), (str ''nebenkosten'', []), (str ''total'', [])]"
    by code_simp
  from fw have d: "distinct (map fst ?P)" by (rule conjunct1)
  from fw have "fst ` set ?P = {get_text l | l. l \<in> set [?l1, ?l2, ?l3] \<and> get_text l \<noteq> []}"
    by (rule conjunct2[THEN conjunct1])
  also have "\<dots> = {(str ''0.1'')}" by (auto intro: exI[of _ ?l1])
  finally have k: "fst ` set ?P = {(str ''0.1'')}" .
  from fw have "map_of ?P (str ''0.1'') =
      map_option (\<lambda>l. apartment_info unicode_decimal id l (str ''0.1'')) (find (\<lambda>l. get_text l = str ''0.1'') [?l1, ?l2, ?l3])"
    by simp
  then have m: "map_of ?P (str ''0.1'') = Some (apartment_info unicode_decimal id ?l1 (str ''0.1''))" by simp
  from d k m rec show ?thesis by simp
qed

subsection \<open>The status of a record\<close>

text \<open>
  C7. Every record of a parsed snapshot has a status, and it is one of the four constants
  free, reserved, occupied and unknown.
\<close>

theorem status_always_resolved:
  "\<forall>(apt_id, info) \<in> set (parse_apartments decimal sub links).
     map_of info (str ''status'') \<in>
       {Some STATUS_FREE, Some STATUS_RESERVED, Some STATUS_OCCUPIED, Some STATUS_UNKNOWN}"
proof (rule ballI)
  fix p
  assume mem: "p \<in> set (parse_apartments decimal sub links)"
  obtain apt_id info where p: "p = (apt_id, info)" by (cases p)
  from parse_apartments_entry[of apt_id info decimal sub links] mem p
  obtain lnk where "info = apartment_info decimal sub lnk apt_id"
    by blast
  then have "map_of info (str ''status'') \<in>
       {Some STATUS_FREE, Some STATUS_RESERVED, Some STATUS_OCCUPIED, Some STATUS_UNKNOWN}"
    using apartment_info_status[of decimal sub lnk apt_id] by (simp add: Let_def)
  with p show "case p of (apt_id, info) \<Rightarrow> map_of info (str ''status'') \<in>
       {Some STATUS_FREE, Some STATUS_RESERVED, Some STATUS_OCCUPIED, Some STATUS_UNKNOWN}"
    by simp
qed

theorem status_always_resolved_witness:
  "(str ''0.2'', apartment_info unicode_decimal id
      \<lparr>get_text = str ''0.2'', attr_class = Some [str ''apartment''], attr_title = None,
       attr_data_text = None\<rparr> (str ''0.2''))
     \<in> set (parse_apartments unicode_decimal id
        [\<lparr>get_text = str ''0.2'', attr_class = Some [str ''apartment''], attr_title = None,
          attr_data_text = None\<rparr>]) \<and>
   map_of (apartment_info unicode_decimal id
      \<lparr>get_text = str ''0.2'', attr_class = Some [str ''apartment''], attr_title = None,
       attr_data_text = None\<rparr> (str ''0.2'')) (str ''status'')
     \<in> {Some STATUS_FREE, Some STATUS_RESERVED, Some STATUS_OCCUPIED, Some STATUS_UNKNOWN}"
proof -
  let ?l = "\<lparr>get_text = str ''0.2'', attr_class = Some [str ''apartment''], attr_title = None,
       attr_data_text = None\<rparr>"
  have m: "(str ''0.2'', apartment_info unicode_decimal id ?l (str ''0.2'')) \<in> set (parse_apartments unicode_decimal id [?l])"
    by (simp add: parse_apartments_def Let_def)
  from status_always_resolved[of unicode_decimal id "[?l]"] m show ?thesis by blast
qed

text \<open>
  C8. The status of a record is resolved in order, the first match winning: a class token
  that contains free, reserved or occupied in lower case decides, in that order; only when
  no token matches, the markers unit_free, unit_reserved and unit_occupied are looked up,
  in that order, in the decoded detail blob; otherwise the status is unknown. The listing
  is the first element of the page with the record's id. In the witness the token
  Unit-RESERVED wins over the marker unit_free of the blob.
\<close>

theorem status_resolution_order:
  assumes "(apt_id, info) \<in> set (parse_apartments decimal sub links)"
  shows "\<exists>lnk. find (\<lambda>l. get_text l = apt_id) links = Some lnk \<and>
     map_of info (str ''status'') =
     Some (let classes = (case attr_class lnk of Some cs \<Rightarrow> cs | None \<Rightarrow> []);
               text = double_unescape sub (case attr_data_text lnk of Some d \<Rightarrow> d | None \<Rightarrow> [])
           in if \<exists>c\<in>set classes. sublist (str ''free'') (lower c) then STATUS_FREE
              else if \<exists>c\<in>set classes. sublist (str ''reserved'') (lower c) then STATUS_RESERVED
              else if \<exists>c\<in>set classes. sublist (str ''occupied'') (lower c) then STATUS_OCCUPIED
              else if sublist (str ''unit_free'') text then STATUS_FREE
              else if sublist (str ''unit_reserved'') text then STATUS_RESERVED
              else if sublist (str ''unit_occupied'') text then STATUS_OCCUPIED
              else STATUS_UNKNOWN)"
  using parse_apartments_entry[OF assms] apartment_info_status by blast

theorem status_resolution_order_witness:
  "(str ''0.1'', apartment_info unicode_decimal id
      \<lparr>get_text = str ''0.1'', attr_class = Some [str ''apartment'', str ''Unit-RESERVED''], attr_title = None,
       attr_data_text = Some (str ''Status: <span class=unit_free>frei</span>'')\<rparr> (str ''0.1''))
     \<in> set (parse_apartments unicode_decimal id
        [\<lparr>get_text = str ''0.1'', attr_class = Some [str ''apartment'', str ''Unit-RESERVED''], attr_title = None,
          attr_data_text = Some (str ''Status: <span class=unit_free>frei</span>'')\<rparr>]) \<and>
   map_of (apartment_info unicode_decimal id
      \<lparr>get_text = str ''0.1'', attr_class = Some [str ''apartment'', str ''Unit-RESERVED''], attr_title = None,
       attr_data_text = Some (str ''Status: <span class=unit_free>frei</span>'')\<rparr> (str ''0.1'')) (str ''status'')
     = Some (str ''reserved'')"
proof -
  let ?l = "\<lparr>get_text = str ''0.1'', attr_class = Some [str ''apartment'', str ''Unit-RESERVED''], attr_title = None,
       attr_data_text = Some (str ''Status: <span class=unit_free>frei</span>'')\<rparr>"
  have m: "(str ''0.1'', apartment_info unicode_decimal id ?l (str ''0.1'')) \<in> set (parse_apartments unicode_decimal id [?l])"
    by (simp add: parse_apartments_def Let_def)
  let ?R = "\<lambda>lnk. let classes = (case attr_class lnk of Some cs \<Rightarrow> cs | None \<Rightarrow> []);
               text = double_unescape id (case attr_data_text lnk of Some d \<Rightarrow> d | None \<Rightarrow> [])
           in if \<exists>c\<in>set classes. sublist (str ''free'') (lower c) then STATUS_FREE
              else if \<exists>c\<in>set classes. sublist (str ''reserved'') (lower c) then STATUS_RESERVED
              else if \<exists>c\<in>set classes. sublist (str ''occupied'') (lower c) then STATUS_OCCUPIED
              else if sublist (str ''unit_free'') text then STATUS_FREE
              else if sublist (str ''unit_reserved'') text then STATUS_RESERVED
              else if sublist (str ''unit_occupied'') text then STATUS_OCCUPIED
              else STATUS_UNKNOWN"
  from status_resolution_order[OF m] obtain lnk where
    f: "find (\<lambda>l. get_text l = str ''0.1'') [?l] = Some lnk" and
    s: "map_of (apartment_info unicode_decimal id ?l (str ''0.1'')) (str ''status'') = Some (?R lnk)"
    by blast
  from f have lnk: "lnk = ?l" by simp
  have v: "?R ?l = str ''reserved''" by code_simp
  have "map_of (apartment_info unicode_decimal id ?l (str ''0.1'')) (str ''status'') = Some (str ''reserved'')"
    using s unfolding lnk v .
  with m show ?thesis by (rule conjI)
qed

subsection \<open>The unit type\<close>

lemma dropWhile_all: "list_all P xs \<Longrightarrow> dropWhile P xs = []"
  by (induction xs) simp_all

lemma dropWhile_skip: "list_all P xs \<Longrightarrow> dropWhile P (xs @ ys) = dropWhile P ys"
  by (induction xs) simp_all

lemma dropWhile_stop: "xs \<noteq> [] \<Longrightarrow> \<not> P (hd xs) \<Longrightarrow> dropWhile P xs = xs"
  by (cases xs) simp_all

lemma strip_spaces: "list_all is_space ws \<Longrightarrow> strip ws = []"
  by (simp add: strip_def dropWhile_all)

lemma strip_core:
  assumes "list_all is_space ws1" and "list_all is_space ws3"
    and "x \<noteq> []" and "\<not> is_space (hd x)" and "\<not> is_space (last x)"
  shows "strip (ws1 @ x @ ws3) = x"
proof -
  have "dropWhile is_space (ws1 @ x @ ws3) = dropWhile is_space (x @ ws3)"
    by (rule dropWhile_skip[OF assms(1)])
  also from assms(3,4) have "\<dots> = x @ ws3"
    by (intro dropWhile_stop) simp_all
  finally have front: "dropWhile is_space (ws1 @ x @ ws3) = x @ ws3" .
  from assms(2) have "list_all is_space (rev ws3)" by (simp add: list_all_iff)
  then have "dropWhile is_space (rev ws3 @ rev x) = dropWhile is_space (rev x)"
    by (rule dropWhile_skip)
  also from assms(3,5) have "\<dots> = rev x"
    by (intro dropWhile_stop) (simp_all add: hd_rev)
  finally show ?thesis
    by (simp add: strip_def front)
qed

lemma match_nr_suffix_only:
  assumes "list_all is_space ws2" and "tok \<noteq> []" and "list_all (\<lambda>c. \<not> is_space c) tok"
  shows "match_nr (str ''Nr.'' @ ws2 @ tok)"
proof -
  let ?x = "str ''Nr.'' @ ws2 @ tok"
  have r0: "dropWhile is_space ?x = ?x"
    by (rule dropWhile_stop) (simp_all add: is_space_def)
  have pre: "prefix (str ''Nr.'') ?x" by simp
  have d3: "drop 3 ?x = ws2 @ tok" by simp
  from assms(2,3) have hd: "\<not> is_space (hd tok)" by (cases tok) simp_all
  have "dropWhile is_space (ws2 @ tok) = dropWhile is_space tok"
    by (rule dropWhile_skip[OF assms(1)])
  also from assms(2) hd have "\<dots> = tok" by (rule dropWhile_stop)
  finally have tok: "dropWhile is_space (ws2 @ tok) = tok" .
  have rest: "dropWhile (\<lambda>c. \<not> is_space c) tok = []"
    by (rule dropWhile_all[OF assms(3)])
  show ?thesis
    unfolding match_nr_def Let_def r0 d3 tok rest using pre assms(2) by simp
qed

lemma apt_type_empty:
  assumes "list_all is_space title \<or>
      (title = ws1 @ str ''Nr.'' @ ws2 @ tok @ ws3 \<and> list_all is_space ws1 \<and> list_all is_space ws2 \<and>
       tok \<noteq> [] \<and> list_all (\<lambda>c. \<not> is_space c) tok \<and> list_all is_space ws3)"
  shows "strip (sub_nr (strip title)) = []"
  using assms
proof
  assume "list_all is_space title"
  then have st: "strip title = []" by (rule strip_spaces)
  have "strip (sub_nr []) = []" by (simp add: strip_def)
  with st show ?thesis by simp
next
  assume a: "title = ws1 @ str ''Nr.'' @ ws2 @ tok @ ws3 \<and> list_all is_space ws1 \<and> list_all is_space ws2 \<and>
       tok \<noteq> [] \<and> list_all (\<lambda>c. \<not> is_space c) tok \<and> list_all is_space ws3"
  let ?x = "str ''Nr.'' @ ws2 @ tok"
  from a have lt: "\<not> is_space (last tok)" by (simp add: list_all_iff)
  have "strip (ws1 @ ?x @ ws3) = ?x"
  proof (rule strip_core)
    show "\<not> is_space (hd ?x)" by (simp add: is_space_def)
    from a lt show "\<not> is_space (last ?x)" by simp
  qed (use a in simp_all)
  with a have s: "strip title = ?x" by simp
  from a have "match_nr ?x" by (intro match_nr_suffix_only) simp_all
  then have "sub_nr ?x = []" by simp
  with s show ?thesis by (simp add: strip_def)
qed

lemma apartment_info_type:
  "map_of (apartment_info decimal sub lnk apt_number) (str ''type'') =
     Some (let apt_type = strip (sub_nr (strip (case attr_title lnk of Some t \<Rightarrow> t | None \<Rightarrow> [])))
           in if apt_type \<noteq> [] then apt_type else (str ''Unknown''))"
  by (simp add: apartment_info_def Let_def)

text \<open>
  C10. When the title of a listing is missing, empty or blank, or is nothing but the suffix
  Nr. followed by a token (with any whitespace around and between them), the type of its
  record is the ustring Unknown.
\<close>

theorem empty_unit_type_is_unknown:
  assumes "(apt_id, info) \<in> set (parse_apartments decimal sub links)"
    and "find (\<lambda>l. get_text l = apt_id) links = Some lnk"
    and "title = (case attr_title lnk of Some t \<Rightarrow> t | None \<Rightarrow> [])"
    and "list_all is_space title \<or>
      (title = ws1 @ str ''Nr.'' @ ws2 @ tok @ ws3 \<and> list_all is_space ws1 \<and> list_all is_space ws2 \<and>
       tok \<noteq> [] \<and> list_all (\<lambda>c. \<not> is_space c) tok \<and> list_all is_space ws3)"
  shows "map_of info (str ''type'') = Some (str ''Unknown'')"
proof -
  from parse_apartments_entry[OF assms(1)] assms(2) have "info = apartment_info decimal sub lnk apt_id"
    by auto
  moreover from apt_type_empty[OF assms(4)] assms(3)
  have "strip (sub_nr (strip (case attr_title lnk of Some t \<Rightarrow> t | None \<Rightarrow> []))) = []"
    by simp
  ultimately show ?thesis using apartment_info_type[of decimal sub lnk apt_id] by simp
qed

theorem empty_unit_type_is_unknown_witness:
  "(str ''0.1'', apartment_info unicode_decimal id
      \<lparr>get_text = str ''0.1'', attr_class = Some [str ''apartment''], attr_title = Some (str ''Nr. 0.1''),
       attr_data_text = None\<rparr> (str ''0.1''))
     \<in> set (parse_apartments unicode_decimal id
        [\<lparr>get_text = str ''0.1'', attr_class = Some [str ''apartment''], attr_title = Some (str ''Nr. 0.1''),
          attr_data_text = None\<rparr>]) \<and>
   str ''Nr. 0.1'' = [] @ str ''Nr.'' @ str '' '' @ str ''0.1'' @ [] \<and>
   map_of (apartment_info unicode_decimal id
      \<lparr>get_text = str ''0.1'', attr_class = Some [str ''apartment''], attr_title = Some (str ''Nr. 0.1''),
       attr_data_text = None\<rparr> (str ''0.1'')) (str ''type'') = Some (str ''Unknown'')"
proof -
  let ?l = "\<lparr>get_text = str ''0.1'', attr_class = Some [str ''apartment''], attr_title = Some (str ''Nr. 0.1''),
       attr_data_text = None\<rparr>"
  have m: "(str ''0.1'', apartment_info unicode_decimal id ?l (str ''0.1'')) \<in> set (parse_apartments unicode_decimal id [?l])"
    by (simp add: parse_apartments_def Let_def)
  have f: "find (\<lambda>l. get_text l = str ''0.1'') [?l] = Some ?l" by simp
  have t: "str ''Nr. 0.1'' = (case attr_title ?l of Some t \<Rightarrow> t | None \<Rightarrow> [])" by simp
  have shape: "list_all is_space (str ''Nr. 0.1'') \<or>
      (str ''Nr. 0.1'' = [] @ str ''Nr.'' @ str '' '' @ str ''0.1'' @ [] \<and> list_all is_space [] \<and>
       list_all is_space (str '' '') \<and> str ''0.1'' \<noteq> [] \<and> list_all (\<lambda>c. \<not> is_space c) (str ''0.1'') \<and>
       list_all is_space [])"
    by (simp add: is_space_def)
  from empty_unit_type_is_unknown[OF m f t shape] m show ?thesis by simp
qed

text \<open>
  Two titles with a no-break space. A title that is a single no-break space is blank, and
  the type is Unknown. In the title Nr. 5 x with a no-break space between 5 and x, the
  token after Nr. is not the end of the title, the pattern does not match and the title is
  the type.
\<close>

lemma no_break_space_titles:
  "map_of (apartment_info unicode_decimal id
      \<lparr>get_text = str ''0.1'', attr_class = Some [str ''apartment''],
       attr_title = Some [0xA0], attr_data_text = None\<rparr> (str ''0.1'')) (str ''type'')
     = Some (str ''Unknown'') \<and>
   map_of (apartment_info unicode_decimal id
      \<lparr>get_text = str ''0.1'', attr_class = Some [str ''apartment''],
       attr_title = Some (str ''Nr. 5'' @ [0xA0] @ str ''x''), attr_data_text = None\<rparr>
      (str ''0.1'')) (str ''type'')
     = Some (str ''Nr. 5'' @ [0xA0] @ str ''x'')"
  by code_simp

subsection \<open>Cold rent, utilities and total\<close>

lemma format_euro_empty: "format_euro n = [] \<longleftrightarrow> n = 0"
  by (simp add: format_euro_def)

lemma parse_amount_absent: "map_of details k = None \<Longrightarrow> parse_amount decimal (get_default details k []) = 0"
  by (simp add: get_default_def parse_amount_def)

lemma apartment_info_money:
  "map_of (apartment_info decimal sub lnk apt_number) (str ''kaltmiete'') =
     Some (format_euro (parse_amount decimal (get_default
       (parse_data_text sub (case attr_data_text lnk of Some d \<Rightarrow> d | None \<Rightarrow> []))
       (str ''Mieth'' @ o_umlaut @ str ''he'') [])))"
  "map_of (apartment_info decimal sub lnk apt_number) (str ''nebenkosten'') =
     Some (format_euro (parse_amount decimal (get_default
       (parse_data_text sub (case attr_data_text lnk of Some d \<Rightarrow> d | None \<Rightarrow> []))
       (str ''Nebenkosten'') [])))"
  "map_of (apartment_info decimal sub lnk apt_number) (str ''total'') =
     Some (format_euro
       (parse_amount decimal (get_default
          (parse_data_text sub (case attr_data_text lnk of Some d \<Rightarrow> d | None \<Rightarrow> []))
          (str ''Mieth'' @ o_umlaut @ str ''he'') []) +
        parse_amount decimal (get_default
          (parse_data_text sub (case attr_data_text lnk of Some d \<Rightarrow> d | None \<Rightarrow> []))
          (str ''Nebenkosten'') [])))"
  by (simp_all add: apartment_info_def Let_def)

text \<open>
  C2, as amended. The fields kaltmiete, nebenkosten and total of a record are the formatted
  cold rent, utilities and their sum, where a label that is missing from the details counts
  as 0; the total is the empty ustring exactly when the sum is 0. In the witness the details
  hold a cold rent of 551 and utilities of 167, and the total is 718.
\<close>

theorem total_is_sum_of_amounts:
  assumes "(apt_id, info) \<in> set (parse_apartments decimal sub links)"
  shows "\<exists>lnk details kaltmiete nebenkosten.
     find (\<lambda>l. get_text l = apt_id) links = Some lnk \<and>
     details = parse_data_text sub (case attr_data_text lnk of Some d \<Rightarrow> d | None \<Rightarrow> []) \<and>
     kaltmiete = parse_amount decimal (get_default details (str ''Mieth'' @ o_umlaut @ str ''he'') []) \<and>
     nebenkosten = parse_amount decimal (get_default details (str ''Nebenkosten'') []) \<and>
     map_of info (str ''kaltmiete'') = Some (format_euro kaltmiete) \<and>
     map_of info (str ''nebenkosten'') = Some (format_euro nebenkosten) \<and>
     map_of info (str ''total'') = Some (format_euro (kaltmiete + nebenkosten)) \<and>
     (map_of details (str ''Mieth'' @ o_umlaut @ str ''he'') = None \<longrightarrow> kaltmiete = 0) \<and>
     (map_of details (str ''Nebenkosten'') = None \<longrightarrow> nebenkosten = 0) \<and>
     (format_euro (kaltmiete + nebenkosten) = [] \<longleftrightarrow> kaltmiete + nebenkosten = 0)"
proof -
  from parse_apartments_entry[OF assms] obtain lnk where
    f: "find (\<lambda>l. get_text l = apt_id) links = Some lnk" and
    i: "info = apartment_info decimal sub lnk apt_id"
    by blast
  show ?thesis
    using f i apartment_info_money[of decimal sub lnk apt_id]
    by (simp add: parse_amount_absent format_euro_empty del: add_is_0)
qed

theorem total_is_sum_of_amounts_witness:
  "(str ''0.1'', apartment_info unicode_decimal id
      \<lparr>get_text = str ''0.1'', attr_class = Some [str ''apartment''], attr_title = None,
       attr_data_text = Some (str ''Mieth'' @ o_umlaut @ str ''he: 551 '' @ euro @
                              str ''<br>Nebenkosten: 167 '' @ euro)\<rparr> (str ''0.1''))
     \<in> set (parse_apartments unicode_decimal id
        [\<lparr>get_text = str ''0.1'', attr_class = Some [str ''apartment''], attr_title = None,
          attr_data_text = Some (str ''Mieth'' @ o_umlaut @ str ''he: 551 '' @ euro @
                                 str ''<br>Nebenkosten: 167 '' @ euro)\<rparr>]) \<and>
   map_of (apartment_info unicode_decimal id
      \<lparr>get_text = str ''0.1'', attr_class = Some [str ''apartment''], attr_title = None,
       attr_data_text = Some (str ''Mieth'' @ o_umlaut @ str ''he: 551 '' @ euro @
                              str ''<br>Nebenkosten: 167 '' @ euro)\<rparr> (str ''0.1'')) (str ''kaltmiete'')
     = Some (str ''551 '' @ euro) \<and>
   map_of (apartment_info unicode_decimal id
      \<lparr>get_text = str ''0.1'', attr_class = Some [str ''apartment''], attr_title = None,
       attr_data_text = Some (str ''Mieth'' @ o_umlaut @ str ''he: 551 '' @ euro @
                              str ''<br>Nebenkosten: 167 '' @ euro)\<rparr> (str ''0.1'')) (str ''nebenkosten'')
     = Some (str ''167 '' @ euro) \<and>
   map_of (apartment_info unicode_decimal id
      \<lparr>get_text = str ''0.1'', attr_class = Some [str ''apartment''], attr_title = None,
       attr_data_text = Some (str ''Mieth'' @ o_umlaut @ str ''he: 551 '' @ euro @
                              str ''<br>Nebenkosten: 167 '' @ euro)\<rparr> (str ''0.1'')) (str ''total'')
     = Some (str ''718 '' @ euro) \<and>
   (str ''0.2'', apartment_info unicode_decimal id
      \<lparr>get_text = str ''0.2'', attr_class = Some [str ''apartment''], attr_title = None,
       attr_data_text = None\<rparr> (str ''0.2''))
     \<in> set (parse_apartments unicode_decimal id
        [\<lparr>get_text = str ''0.2'', attr_class = Some [str ''apartment''], attr_title = None,
          attr_data_text = None\<rparr>]) \<and>
   map_of (parse_data_text id []) (str ''Mieth'' @ o_umlaut @ str ''he'') = None \<and>
   map_of (parse_data_text id []) (str ''Nebenkosten'') = None \<and>
   map_of (apartment_info unicode_decimal id
      \<lparr>get_text = str ''0.2'', attr_class = Some [str ''apartment''], attr_title = None,
       attr_data_text = None\<rparr> (str ''0.2'')) (str ''total'') = Some []"
proof -
  let ?blob = "str ''Mieth'' @ o_umlaut @ str ''he: 551 '' @ euro @ str ''<br>Nebenkosten: 167 '' @ euro"
  let ?l = "\<lparr>get_text = str ''0.1'', attr_class = Some [str ''apartment''], attr_title = None,
       attr_data_text = Some ?blob\<rparr>"
  let ?l2 = "\<lparr>get_text = str ''0.2'', attr_class = Some [str ''apartment''], attr_title = None,
       attr_data_text = None\<rparr>"
  have m: "(str ''0.1'', apartment_info unicode_decimal id ?l (str ''0.1'')) \<in> set (parse_apartments unicode_decimal id [?l])"
    by (simp add: parse_apartments_def Let_def)
  have k: "parse_amount unicode_decimal (get_default (parse_data_text id ?blob) (str ''Mieth'' @ o_umlaut @ str ''he'') []) = 551"
    by code_simp
  have n: "parse_amount unicode_decimal (get_default (parse_data_text id ?blob) (str ''Nebenkosten'') []) = 167"
    by code_simp
  have fk: "format_euro 551 = str ''551 '' @ euro" by code_simp
  have fn: "format_euro 167 = str ''167 '' @ euro" by code_simp
  have ft: "format_euro (551 + 167) = str ''718 '' @ euro" by code_simp
  from total_is_sum_of_amounts[OF m] obtain lnk details kaltmiete nebenkosten where
    r: "find (\<lambda>l. get_text l = str ''0.1'') [?l] = Some lnk"
      "details = parse_data_text id (case attr_data_text lnk of Some d \<Rightarrow> d | None \<Rightarrow> [])"
      "kaltmiete = parse_amount unicode_decimal (get_default details (str ''Mieth'' @ o_umlaut @ str ''he'') [])"
      "nebenkosten = parse_amount unicode_decimal (get_default details (str ''Nebenkosten'') [])"
      "map_of (apartment_info unicode_decimal id ?l (str ''0.1'')) (str ''kaltmiete'') = Some (format_euro kaltmiete)"
      "map_of (apartment_info unicode_decimal id ?l (str ''0.1'')) (str ''nebenkosten'') = Some (format_euro nebenkosten)"
      "map_of (apartment_info unicode_decimal id ?l (str ''0.1'')) (str ''total'') = Some (format_euro (kaltmiete + nebenkosten))"
    by blast
  from r(1) have "lnk = ?l" by simp
  with r(2,3,4) k n have "kaltmiete = 551" "nebenkosten = 167" by simp_all
  with r(5,6,7) fk fn ft have first:
    "map_of (apartment_info unicode_decimal id ?l (str ''0.1'')) (str ''kaltmiete'') = Some (str ''551 '' @ euro)"
    "map_of (apartment_info unicode_decimal id ?l (str ''0.1'')) (str ''nebenkosten'') = Some (str ''167 '' @ euro)"
    "map_of (apartment_info unicode_decimal id ?l (str ''0.1'')) (str ''total'') = Some (str ''718 '' @ euro)"
    by simp_all
  have m2: "(str ''0.2'', apartment_info unicode_decimal id ?l2 (str ''0.2'')) \<in> set (parse_apartments unicode_decimal id [?l2])"
    by (simp add: parse_apartments_def Let_def)
  have e1: "map_of (parse_data_text id []) (str ''Mieth'' @ o_umlaut @ str ''he'') = None"
    and e2: "map_of (parse_data_text id []) (str ''Nebenkosten'') = None"
    by (simp_all add: parse_data_text_def)
  from total_is_sum_of_amounts[OF m2]
  have second: "map_of (apartment_info unicode_decimal id ?l2 (str ''0.2'')) (str ''total'') = Some []"
  proof (elim exE conjE)
    fix lnk2 details2 kaltmiete2 nebenkosten2
    assume f: "find (\<lambda>l. get_text l = str ''0.2'') [?l2] = Some lnk2"
      and d: "details2 = parse_data_text id (case attr_data_text lnk2 of Some d \<Rightarrow> d | None \<Rightarrow> [])"
      and t: "map_of (apartment_info unicode_decimal id ?l2 (str ''0.2'')) (str ''total'') = Some (format_euro (kaltmiete2 + nebenkosten2))"
      and k: "map_of details2 (str ''Mieth'' @ o_umlaut @ str ''he'') = None \<longrightarrow> kaltmiete2 = 0"
      and n: "map_of details2 (str ''Nebenkosten'') = None \<longrightarrow> nebenkosten2 = 0"
    from f have l2: "lnk2 = ?l2" by simp
    from d have d2: "details2 = parse_data_text id []" unfolding l2 by simp
    have k0: "kaltmiete2 = 0" using k[unfolded d2] e1 by (rule mp)
    have n0: "nebenkosten2 = 0" using n[unfolded d2] e2 by (rule mp)
    have z: "format_euro (0 + 0) = []" by (simp add: format_euro_def)
    show ?thesis using t unfolding k0 n0 z .
  qed
  from m first m2 e1 e2 second show ?thesis by (intro conjI)
qed

text \<open>
  C2, as stated, fails: with a cold rent of 551 and no utilities label the total is not
  empty, it is the cold rent.
\<close>

theorem total_without_utilities_counterexample:
  "map_of (parse_data_text id (str ''Mieth'' @ o_umlaut @ str ''he: 551 '' @ euro)) (str ''Nebenkosten'') = None \<and>
   parse_apartments unicode_decimal id
     [\<lparr>get_text = str ''0.1'', attr_class = Some [str ''apartment'', str ''free''],
       attr_title = Some (str ''Komfort-Apartment Nr. 0.1''),
       attr_data_text = Some (str ''Mieth'' @ o_umlaut @ str ''he: 551 '' @ euro)\<rparr>] =
   [(str ''0.1'', [(str ''name'', str ''Apartment 0.1''), (str ''type'', str ''Komfort-Apartment''),
               (str ''status'', str ''free''), (str ''size'', []), (str ''kaltmiete'', str ''551 '' @ euro),
               (str ''nebenkosten'', []), (str ''total'', str ''551 '' @ euro)])] \<and>
   str ''551 '' @ euro \<noteq> []"
  by code_simp

text \<open>
  A cold rent written in full-width digits (U+FF15, U+FF15, U+FF11) is read as 551.
\<close>

lemma full_width_digits:
  "parse_apartments unicode_decimal id
     [\<lparr>get_text = str ''0.1'', attr_class = Some [str ''apartment'', str ''free''],
       attr_title = Some (str ''Komfort-Apartment Nr. 0.1''),
       attr_data_text = Some (str ''Mieth'' @ o_umlaut @ str ''he: '' @ [0xFF15, 0xFF15, 0xFF11] @
                              str '' '' @ euro @ str ''<br>Nebenkosten: 167 '' @ euro)\<rparr>] =
   [(str ''0.1'', [(str ''name'', str ''Apartment 0.1''), (str ''type'', str ''Komfort-Apartment''),
                   (str ''status'', str ''free''), (str ''size'', []),
                   (str ''kaltmiete'', str ''551 '' @ euro),
                   (str ''nebenkosten'', str ''167 '' @ euro),
                   (str ''total'', str ''718 '' @ euro)])]"
  by code_simp

subsection \<open>Decoding the detail blob\<close>

lemma funpow_fixed: "f t = t \<Longrightarrow> (f ^^ n) t = t"
  by (induction n) simp_all

lemma sub_charref_no_reference: "\<not> has_charref t \<Longrightarrow> sub_charref T t = t"
  by (induction t) (auto split: option.splits)

lemma unescape_no_reference: "\<not> has_charref t \<Longrightarrow> unescape (sub_charref T) t = t"
  by (simp add: unescape_def sub_charref_no_reference)

text \<open>
  A blob that was encoded three times: two passes leave an encoded reference, which a third
  pass decodes. This holds with every table that has the entries of \<open>amp;\<close> and \<open>lt;\<close>.
\<close>

lemma third_pass_changes:
  assumes "map_of (html5 T) (str ''amp;'') = Some (str ''&'')"
    and "map_of (html5 T) (str ''lt;'') = Some (str ''<'')"
  shows "unescape (sub_charref T) (str ''Preis &amp;amp;lt; 600'') = str ''Preis &amp;lt; 600''"
    and "unescape (sub_charref T) (str ''Preis &amp;lt; 600'') = str ''Preis &lt; 600''"
    and "unescape (sub_charref T) (str ''Preis &lt; 600'') = str ''Preis < 600''"
  using assms
  by (simp_all add: unescape_def match_charref_def replace_charref_def opt_semicolon_def
      is_name_char_def Let_def)

text \<open>
  C9, as amended. A text that holds no character reference is left unchanged by the decoding
  and by any number of passes of unescape; and when the doubly decoded blob holds no
  character reference, any number of further passes yields it again. This holds with every
  content of the library's tables.
\<close>

theorem decoding_stable_without_references:
  "(\<not> has_charref t \<longrightarrow>
      double_unescape (sub_charref T) t = t \<and> (unescape (sub_charref T) ^^ n) t = t) \<and>
   (\<not> has_charref (double_unescape (sub_charref T) s) \<longrightarrow>
      (unescape (sub_charref T) ^^ (2 + m)) s = double_unescape (sub_charref T) s)"
proof (intro conjI impI)
  assume "\<not> has_charref t"
  then have u: "unescape (sub_charref T) t = t" by (rule unescape_no_reference)
  then show "double_unescape (sub_charref T) t = t" by (simp add: double_unescape_def)
  from u show "(unescape (sub_charref T) ^^ n) t = t" by (rule funpow_fixed)
next
  assume "\<not> has_charref (double_unescape (sub_charref T) s)"
  then have fixed: "unescape (sub_charref T) (double_unescape (sub_charref T) s) =
      double_unescape (sub_charref T) s"
    by (rule unescape_no_reference)
  have "(unescape (sub_charref T) ^^ (2 + m)) s =
      (unescape (sub_charref T) ^^ m) (double_unescape (sub_charref T) s)"
    by (simp add: double_unescape_def funpow_swap1 numeral_2_eq_2)
  also have "\<dots> = double_unescape (sub_charref T) s"
    using fixed by (rule funpow_fixed)
  finally show "(unescape (sub_charref T) ^^ (2 + m)) s = double_unescape (sub_charref T) s" .
qed

theorem decoding_stable_without_references_witness:
  "\<not> has_charref (str ''Preis < 600 & mehr'') \<and>
   double_unescape (sub_charref amp_lt_tables) (str ''Preis < 600 & mehr'') =
     str ''Preis < 600 & mehr'' \<and>
   (unescape (sub_charref amp_lt_tables) ^^ 3) (str ''Preis < 600 & mehr'') =
     str ''Preis < 600 & mehr'' \<and>
   double_unescape (sub_charref amp_lt_tables) (str ''Preis &amp;lt; 600 &amp;amp; mehr'') =
     str ''Preis < 600 & mehr'' \<and>
   (unescape (sub_charref amp_lt_tables) ^^ (2 + 1)) (str ''Preis &amp;lt; 600 &amp;amp; mehr'') =
     double_unescape (sub_charref amp_lt_tables) (str ''Preis &amp;lt; 600 &amp;amp; mehr'')"
proof -
  let ?t = "str ''Preis < 600 & mehr''"
  let ?s = "str ''Preis &amp;lt; 600 &amp;amp; mehr''"
  note st = decoding_stable_without_references[of ?t amp_lt_tables 3 ?s 1]
  have h: "\<not> has_charref ?t" by code_simp
  have d: "double_unescape (sub_charref amp_lt_tables) ?s = ?t" by code_simp
  have h2: "\<not> has_charref (double_unescape (sub_charref amp_lt_tables) ?s)"
    unfolding d by (rule h)
  from st[THEN conjunct1, rule_format, OF h]
  have a: "double_unescape (sub_charref amp_lt_tables) ?t = ?t"
    and b: "(unescape (sub_charref amp_lt_tables) ^^ 3) ?t = ?t"
    by (rule conjunct1, rule conjunct2)
  have c: "(unescape (sub_charref amp_lt_tables) ^^ (2 + 1)) ?s =
      double_unescape (sub_charref amp_lt_tables) ?s"
    by (rule st[THEN conjunct2, rule_format, OF h2])
  from h a b d c show ?thesis by (intro conjI)
qed

text \<open>
  C9, as stated, fails: the doubly decoded text of a blob that was encoded three times is
  changed by a third pass, and the double decoding of it differs from it.
\<close>

theorem third_pass_counterexample:
  "double_unescape (sub_charref amp_lt_tables) (str ''Preis &amp;amp;lt; 600'') =
     str ''Preis &lt; 600'' \<and>
   unescape (sub_charref amp_lt_tables) (str ''Preis &lt; 600'') = str ''Preis < 600'' \<and>
   double_unescape (sub_charref amp_lt_tables)
     (double_unescape (sub_charref amp_lt_tables) (str ''Preis &amp;amp;lt; 600'')) \<noteq>
   double_unescape (sub_charref amp_lt_tables) (str ''Preis &amp;amp;lt; 600'')"
proof -
  have e: "map_of (html5 amp_lt_tables) (str ''amp;'') = Some (str ''&'')"
    "map_of (html5 amp_lt_tables) (str ''lt;'') = Some (str ''<'')"
    by (simp_all add: amp_lt_tables_def)
  note p = third_pass_changes[OF e]
  have d1: "double_unescape (sub_charref amp_lt_tables) (str ''Preis &amp;amp;lt; 600'') =
      str ''Preis &lt; 600''"
    unfolding double_unescape_def p(1) p(2) ..
  have n: "\<not> has_charref (str ''Preis < 600'')" by code_simp
  have d2: "double_unescape (sub_charref amp_lt_tables) (str ''Preis &lt; 600'') =
      str ''Preis < 600''"
    unfolding double_unescape_def p(3) unescape_no_reference[OF n] ..
  have ne: "str ''Preis < 600'' \<noteq> str ''Preis &lt; 600''" by simp
  show ?thesis
    unfolding d1 d2 using p(3) ne by simp
qed

end
